theory Spec2Isabelle
  imports Complex_Main
begin

section \<open>Python and Django primitives\<close>

text \<open>
  Exceptions raised by the Python code and by the framework calls it makes. A handler
  body is a value of type \<open>exn + 'a\<close>; the handler's \<open>except\<close> clauses turn \<open>Inl\<close>
  into a response.
\<close>

datatype exn =
    ZeroDivisionError
  | Http404
  | DoesNotExist
  | MultipleObjectsReturned
  | FieldError
  | TypeError
  | AttributeError
  | IntegrityError

datatype http_method = GET | POST | PUT | DELETE

text \<open>
  Python's \<open>a / b\<close> on two ints. The quotient is a float in Python; here it is the exact
  rational, so rounding below is rounding of the exact value.
\<close>

definition truediv :: "nat \<Rightarrow> nat \<Rightarrow> exn + rat" where
  "truediv a b = (if b = 0 then Inl ZeroDivisionError else Inr (of_nat a / of_nat b))"

text \<open>Round half to even, as Python's \<open>round\<close> does.\<close>

definition round_half_even :: "rat \<Rightarrow> int" where
  "round_half_even q =
     (let f = \<lfloor>q\<rfloor>; d = q - of_int f
      in if d < 1 / 2 then f
         else if 1 / 2 < d then f + 1
         else if even f then f else f + 1)"

text \<open>\<open>round(x, n)\<close>: the multiple of \<open>10 ^ (- n)\<close> nearest to \<open>x\<close>.\<close>

definition py_round :: "rat \<Rightarrow> nat \<Rightarrow> rat" where
  "py_round x n = of_int (round_half_even (x * 10 ^ n)) / 10 ^ n"

text \<open>\<open>str.isspace\<close> on the ASCII range, and \<open>str.strip()\<close>.\<close>

definition isspace :: "char \<Rightarrow> bool" where
  "isspace c = (c \<in> set [CHR 0x09, CHR 0x0A, CHR 0x0B, CHR 0x0C, CHR 0x0D,
                          CHR 0x1C, CHR 0x1D, CHR 0x1E, CHR 0x1F, CHR 0x20])"

definition strip :: "string \<Rightarrow> string" where
  "strip s = rev (dropWhile isspace (rev (dropWhile isspace s)))"

text \<open>\<open>dict.get(key, default)\<close> on a parsed JSON body: \<open>None\<close> is an absent key.\<close>

definition dict_get :: "'a option \<Rightarrow> 'a \<Rightarrow> 'a" where
  "dict_get v d = (case v of None \<Rightarrow> d | Some x \<Rightarrow> x)"

text \<open>Sequencing of steps that may raise, and a \<open>for\<close> loop that builds a list.\<close>

definition and_then :: "exn + 'a \<Rightarrow> ('a \<Rightarrow> exn + 'b) \<Rightarrow> exn + 'b" where
  "and_then m f = (case m of Inl e \<Rightarrow> Inl e | Inr x \<Rightarrow> f x)"

fun for_each :: "('a \<Rightarrow> exn + 'b) \<Rightarrow> 'a list \<Rightarrow> exn + 'b list" where
  "for_each f [] = Inr []"
| "for_each f (x # xs) =
     (case f x of
        Inl e \<Rightarrow> Inl e
      | Inr y \<Rightarrow> (case for_each f xs of Inl e \<Rightarrow> Inl e | Inr ys \<Rightarrow> Inr (y # ys)))"

text \<open>
  \<open>Model.objects.get(**kwargs)\<close> over the rows of a table: a keyword that is not a field
  of the model raises \<open>FieldError\<close>; otherwise exactly one matching row is returned.
  \<open>get_object_or_404\<close> turns \<open>DoesNotExist\<close> into \<open>Http404\<close>, which is an \<open>Exception\<close>
  but not a \<open>DoesNotExist\<close>.
\<close>

definition objects_get :: "string list \<Rightarrow> string list \<Rightarrow> ('a \<Rightarrow> bool) \<Rightarrow> 'a list \<Rightarrow> exn + 'a" where
  "objects_get fields kws P rows =
     (if \<not> list_all (\<lambda>k. k \<in> set fields) kws then Inl FieldError
      else case filter P rows of
             [] \<Rightarrow> Inl DoesNotExist
           | [x] \<Rightarrow> Inr x
           | _ \<Rightarrow> Inl MultipleObjectsReturned)"

definition get_object_or_404 :: "string list \<Rightarrow> string list \<Rightarrow> ('a \<Rightarrow> bool) \<Rightarrow> 'a list \<Rightarrow> exn + 'a" where
  "get_object_or_404 fields kws P rows =
     (case objects_get fields kws P rows of
        Inl DoesNotExist \<Rightarrow> Inl Http404
      | r \<Rightarrow> r)"

record response =
  status :: nat
  success :: bool
  message :: string

definition JsonResponse :: "bool \<Rightarrow> string \<Rightarrow> nat \<Rightarrow> response" where
  "JsonResponse ok msg st = \<lparr>status = st, success = ok, message = msg\<rparr>"

section \<open>The \<open>poll_system\<close> application: models\<close>

text \<open>
  \<open>poll_system/models.py\<close>. Users are their primary keys. Timestamps are natural numbers;
  \<open>updated_at\<close> and the \<open>created_at\<close> columns of options and votes are left out, no
  handler reads them except to print them. Column length limits are not part of the
  model: the handlers never call \<open>full_clean\<close>.
\<close>

record Poll =
  poll_id :: nat
  title :: string
  description :: string
  creator :: nat
  created_at :: nat
  expires_at :: "nat option"
  is_active :: bool
  category :: string

record PollOption =
  option_id :: nat
  option_poll :: nat
  option_text :: string

record Vote =
  v_id :: nat
  v_poll :: nat
  v_option :: nat
  v_user :: nat

record store =
  users :: "nat list"
  polls :: "Poll list"
  options :: "PollOption list"
  votes :: "Vote list"
  next_poll_id :: nat
  next_option_id :: nat
  next_vote_id :: nat

definition Poll_fields :: "string list" where
  "Poll_fields = [''id'', ''title'', ''description'', ''creator'', ''created_at'', ''updated_at'',
                  ''expires_at'', ''is_active'', ''category'', ''options'', ''votes'']"

definition PollOption_fields :: "string list" where
  "PollOption_fields = [''id'', ''poll'', ''text'', ''created_at'', ''votes'']"

text \<open>\<open>Poll.can_edit\<close>, \<open>Poll.can_delete\<close>, \<open>Poll.total_votes\<close>, \<open>PollOption.vote_count\<close>.\<close>

definition can_edit :: "Poll \<Rightarrow> nat \<Rightarrow> bool" where
  "can_edit p user = (creator p = user)"

definition can_delete :: "Poll \<Rightarrow> nat \<Rightarrow> bool" where
  "can_delete p user = (creator p = user)"

definition total_votes :: "store \<Rightarrow> nat \<Rightarrow> nat" where
  "total_votes s pid = length (filter (\<lambda>v. v_poll v = pid) (votes s))"


text \<open>\<open>Poll.is_expired\<close>, with the current time as an argument.\<close>

definition is_expired :: "nat \<Rightarrow> Poll \<Rightarrow> bool" where
  "is_expired now p = (case expires_at p of Some e \<Rightarrow> e < now | None \<Rightarrow> False)"


text \<open>
  Row creation. \<open>Vote\<close> carries \<open>unique_together = ('poll', 'user')\<close>: the table refuses
  a second row with the same pair.
\<close>

definition Poll_objects_create ::
  "nat \<Rightarrow> store \<Rightarrow> string \<Rightarrow> string \<Rightarrow> string \<Rightarrow> nat \<Rightarrow> nat option \<Rightarrow> Poll \<times> store" where
  "Poll_objects_create now s t d c u e =
     (let p = \<lparr>poll_id = next_poll_id s, title = t, description = d, creator = u,
                created_at = now, expires_at = e, is_active = True, category = c\<rparr>
      in (p, s\<lparr>polls := polls s @ [p], next_poll_id := Suc (next_poll_id s)\<rparr>))"

definition PollOption_objects_create :: "store \<Rightarrow> nat \<Rightarrow> string \<Rightarrow> store" where
  "PollOption_objects_create s pid txt =
     s\<lparr>options := options s @ [\<lparr>option_id = next_option_id s, option_poll = pid, option_text = txt\<rparr>],
       next_option_id := Suc (next_option_id s)\<rparr>"

definition Vote_objects_create :: "store \<Rightarrow> nat \<Rightarrow> nat \<Rightarrow> nat \<Rightarrow> exn + store" where
  "Vote_objects_create s pid oid u =
     (if list_ex (\<lambda>v. v_poll v = pid \<and> v_user v = u) (votes s) then Inl IntegrityError
      else Inr (s\<lparr>votes := votes s @ [\<lparr>v_id = next_vote_id s, v_poll = pid,
                                         v_option = oid, v_user = u\<rparr>],
                  next_vote_id := Suc (next_vote_id s)\<rparr>))"

text \<open>
  Deletion with \<open>on_delete=CASCADE\<close>: deleting options deletes the votes that reference
  them; deleting a poll deletes its options, the votes that reference the poll and the
  votes that reference its options.
\<close>

definition delete_options_of :: "store \<Rightarrow> nat \<Rightarrow> store" where
  "delete_options_of s pid =
     (let gone = map option_id (filter (\<lambda>opt. option_poll opt = pid) (options s))
      in s\<lparr>options := filter (\<lambda>opt. option_poll opt \<noteq> pid) (options s),
           votes := filter (\<lambda>v. v_option v \<notin> set gone) (votes s)\<rparr>)"

definition Poll_delete :: "store \<Rightarrow> nat \<Rightarrow> store" where
  "Poll_delete s pid =
     (let gone = map option_id (filter (\<lambda>opt. option_poll opt = pid) (options s))
      in s\<lparr>polls := filter (\<lambda>p. poll_id p \<noteq> pid) (polls s),
           options := filter (\<lambda>opt. option_poll opt \<noteq> pid) (options s),
           votes := filter (\<lambda>v. v_poll v \<noteq> pid \<and> v_option v \<notin> set gone) (votes s)\<rparr>)"

text \<open>\<open>poll.save()\<close>: the row with the poll's primary key is overwritten.\<close>

definition Poll_save :: "store \<Rightarrow> Poll \<Rightarrow> store" where
  "Poll_save s p = s\<lparr>polls := map (\<lambda>q. if poll_id q = poll_id p then p else q) (polls s)\<rparr>"

section \<open>The \<open>poll_system\<close> application: request handlers\<close>

text \<open>
  A request carries the logged-in user (\<open>None\<close> when anonymous) and a parsed JSON body.
  The body's values have the types the handlers expect: strings, a list of strings, a
  number. A key may be absent. The request method is an argument where the handler
  branches on it; elsewhere the request has a method that the handler's decorators let
  through. Of a response the model keeps the status, the \<open>success\<close> flag and the
  message; a message that the source ends with \<open>str(e)\<close> is cut before it.
\<close>

record poll_payload =
  pl_title :: "string option"
  pl_description :: "string option"
  pl_category :: "string option"
  pl_expires_at :: "string option"
  pl_options :: "string list option"

text \<open>
  \<open>create_poll\<close> (\<open>poll_system/views.py\<close>). \<open>fromisoformat\<close> is the date parser, \<open>None\<close>
  where it raises \<open>ValueError\<close>.
\<close>

definition create_options :: "nat \<Rightarrow> string list \<Rightarrow> store \<Rightarrow> store" where
  "create_options pid opts s =
     fold (\<lambda>option_text s'. if strip option_text \<noteq> []
                             then PollOption_objects_create s' pid (strip option_text)
                             else s') opts s"

definition create_poll ::
  "(string \<Rightarrow> nat option) \<Rightarrow> nat \<Rightarrow> store \<Rightarrow> nat option \<Rightarrow> poll_payload \<Rightarrow> response \<times> store" where
  "create_poll fromisoformat now s user data =
     (case user of
        None \<Rightarrow> (JsonResponse False ''Authentication required'' 401, s)
      | Some u \<Rightarrow>
          let title = strip (dict_get (pl_title data) []);
              description = strip (dict_get (pl_description data) []);
              category = strip (dict_get (pl_category data) []);
              opts = dict_get (pl_options data) []
          in if title = [] then (JsonResponse False ''Poll title is required'' 400, s)
             else if length opts < 2 then (JsonResponse False ''At least 2 options are required'' 400, s)
             else if length opts > 10 then (JsonResponse False ''Maximum 10 options allowed'' 400, s)
             else
               let expires_at_obj =
                     (case pl_expires_at data of
                        None \<Rightarrow> None
                      | Some e \<Rightarrow> if e \<noteq> [] \<and> strip e \<noteq> [] then fromisoformat e else None);
                   (poll, s1) = Poll_objects_create now s title description category u expires_at_obj;
                   s2 = create_options (poll_id poll) opts s1
               in (JsonResponse True ''Poll created successfully!'' 200, s2))"

text \<open>
  \<open>vote_poll\<close>. \<open>QuerySet.first()\<close> on an unordered query orders by primary key.
  Saving a changed vote goes through the same uniqueness constraint as creating one.
  The body of the request is \<open>None\<close> when it is not a JSON object: \<open>json.loads\<close> or
  \<open>data.get\<close> then raises inside the \<open>try\<close> block. Otherwise \<open>vp_option_id\<close> is the
  number under the key \<open>option_id\<close>, \<open>None\<close> when the key is absent or null.
\<close>

record vote_payload =
  vp_option_id :: "nat option"

definition Vote_first :: "Vote list \<Rightarrow> Vote option" where
  "Vote_first vs = (case sort_key v_id vs of [] \<Rightarrow> None | v # _ \<Rightarrow> Some v)"

definition Vote_save :: "store \<Rightarrow> Vote \<Rightarrow> exn + store" where
  "Vote_save s v =
     (if list_ex (\<lambda>w. v_id w \<noteq> v_id v \<and> v_poll w = v_poll v \<and> v_user w = v_user v)
           (votes s)
      then Inl IntegrityError
      else Inr (s\<lparr>votes := map (\<lambda>w. if v_id w = v_id v then v else w) (votes s)\<rparr>))"

definition vote_poll_body :: "store \<Rightarrow> nat \<Rightarrow> nat \<Rightarrow> nat \<Rightarrow> exn + string \<times> store" where
  "vote_poll_body s u pid oid =
     and_then (get_object_or_404 Poll_fields [''id''] (\<lambda>p. poll_id p = pid) (polls s)) (\<lambda>poll.
     and_then (get_object_or_404 PollOption_fields [''id'', ''poll'']
                 (\<lambda>opt. option_id opt = oid \<and> option_poll opt = poll_id poll) (options s)) (\<lambda>opt.
       case Vote_first (filter (\<lambda>v. v_poll v = poll_id poll \<and> v_user v = u) (votes s)) of
         Some existing_vote \<Rightarrow>
           and_then (Vote_save s (existing_vote\<lparr>v_option := option_id opt\<rparr>))
             (\<lambda>s'. Inr (''Vote updated successfully!'', s'))
       | None \<Rightarrow>
           and_then (Vote_objects_create s (poll_id poll) (option_id opt) u)
             (\<lambda>s'. Inr (''Vote submitted successfully!'', s'))))"

definition vote_poll :: "store \<Rightarrow> nat option \<Rightarrow> nat \<Rightarrow> vote_payload option \<Rightarrow> response \<times> store" where
  "vote_poll s user pid body =
     (case user of
        None \<Rightarrow> (JsonResponse False ''Authentication required'' 401, s)
      | Some u \<Rightarrow>
          (case body of
             None \<Rightarrow> (JsonResponse False ''Unable to vote'' 500, s)
           | Some data \<Rightarrow>
               (case vp_option_id data of
                  None \<Rightarrow> (JsonResponse False ''Option ID is required'' 400, s)
                | Some oid \<Rightarrow>
                    if oid = 0 then (JsonResponse False ''Option ID is required'' 400, s)
                    else (case vote_poll_body s u pid oid of
                            Inl e \<Rightarrow> (JsonResponse False ''Unable to vote'' 500, s)
                          | Inr (msg, s') \<Rightarrow> (JsonResponse True msg 200, s')))))"





text \<open>
  \<open>detailed_statistics\<close>. The category distribution, a grouping query that involves no
  arithmetic, is not part of the model.
\<close>

record statistics =
  completionRate :: rat
  avgVotesPerPoll :: rat
  engagementRate :: rat

definition polls_with_votes :: "store \<Rightarrow> nat" where
  "polls_with_votes s = length (filter (\<lambda>p. total_votes s (poll_id p) > 0) (polls s))"

definition users_who_voted :: "store \<Rightarrow> nat" where
  "users_who_voted s = length (remdups (map v_user (votes s)))"

definition detailed_statistics_body :: "store \<Rightarrow> exn + statistics" where
  "detailed_statistics_body s =
     (let total_polls = length (polls s);
          total_vs = length (votes s)
      in and_then (if total_polls > 0
                   then and_then (truediv (polls_with_votes s) total_polls) (\<lambda>q. Inr (py_round (q * 100) 2))
                   else Inr 0) (\<lambda>completion_rate.
         and_then (if total_polls > 0
                   then and_then (truediv total_vs total_polls) (\<lambda>q. Inr (py_round q 2))
                   else Inr 0) (\<lambda>avg_votes_per_poll.
         let total_users = length (users s)
         in and_then (if total_users > 0
                      then and_then (truediv (users_who_voted s) total_users) (\<lambda>q. Inr (py_round (q * 100) 2))
                      else Inr 0) (\<lambda>engagement_rate.
            Inr \<lparr>completionRate = completion_rate, avgVotesPerPoll = avg_votes_per_poll,
                 engagementRate = engagement_rate\<rparr>))))"

definition detailed_statistics :: "store \<Rightarrow> response \<times> statistics option" where
  "detailed_statistics s =
     (case detailed_statistics_body s of
        Inl e \<Rightarrow> (JsonResponse False ''Unable to load detailed statistics'' 500, None)
      | Inr st \<Rightarrow> (JsonResponse True [] 200, Some st))"

text \<open>
  \<open>top_polls\<close>. The query orders by \<open>-vote_count\<close> only; among polls with equal counts the
  database is free, and the model keeps them in table order.
\<close>

record top_poll =
  tp_id :: nat
  tp_title :: string
  tp_vote_count :: nat
  tp_participation_rate :: rat

definition top_polls_query :: "store \<Rightarrow> Poll list" where
  "top_polls_query s =
     take 10 (sort_key (\<lambda>p. - int (total_votes s (poll_id p)))
                (filter (\<lambda>p. total_votes s (poll_id p) > 0) (polls s)))"

definition top_polls_body :: "store \<Rightarrow> exn + top_poll list" where
  "top_polls_body s =
     for_each (\<lambda>poll.
        let total_possible_votes = length (users s)
        in and_then (if total_possible_votes > 0
                     then and_then (truediv (total_votes s (poll_id poll)) total_possible_votes)
                            (\<lambda>q. Inr (py_round (q * 100) 2))
                     else Inr 0)
             (\<lambda>participation_rate.
                Inr \<lparr>tp_id = poll_id poll, tp_title = title poll,
                     tp_vote_count = total_votes s (poll_id poll),
                     tp_participation_rate = participation_rate\<rparr>))
       (top_polls_query s)"

definition top_polls :: "store \<Rightarrow> response \<times> top_poll list option" where
  "top_polls s =
     (case top_polls_body s of
        Inl e \<Rightarrow> (JsonResponse False ''Unable to load top polls'' 500, None)
      | Inr tps \<Rightarrow> (JsonResponse True [] 200, Some tps))"

text \<open>
  \<open>analytics_data\<close>: the module defines it twice and the later definition is the one in
  effect. Of its response the model keeps \<open>popular_polls\<close>. \<open>Poll.Meta.ordering\<close> is
  \<open>['-created_at']\<close>, so \<open>Poll.objects.all()\<close> lists the newest poll first.
\<close>

definition Poll_objects_all :: "store \<Rightarrow> Poll list" where
  "Poll_objects_all s = sort_key (\<lambda>p. - int (created_at p)) (polls s)"

record popular_poll =
  pop_id :: nat
  pop_title :: string
  pop_vote_count :: nat

definition popular_polls :: "store \<Rightarrow> popular_poll list" where
  "popular_polls s =
     take 5 (sort_key (\<lambda>x. - int (pop_vote_count x))
               (map (\<lambda>poll. \<lparr>pop_id = poll_id poll, pop_title = title poll,
                              pop_vote_count = total_votes s (poll_id poll)\<rparr>)
                  (take 5 (Poll_objects_all s))))"



text \<open>
  \<open>poll_detail\<close>: the module defines it twice; the later definition, for GET, PUT and
  DELETE, is the one in effect. The body is \<open>None\<close> when it is not valid JSON.
\<close>

definition poll_detail ::
  "http_method \<Rightarrow> store \<Rightarrow> nat option \<Rightarrow> nat \<Rightarrow> poll_payload option \<Rightarrow> response \<times> store" where
  "poll_detail method s user pid body =
     (if method = POST then (JsonResponse False ''Method not allowed'' 405, s)
      else
        case get_object_or_404 Poll_fields [''id''] (\<lambda>p. poll_id p = pid) (polls s) of
          Inl DoesNotExist \<Rightarrow> (JsonResponse False ''Poll not found'' 404, s)
        | Inl e \<Rightarrow> (JsonResponse False ''Operation failed'' 500, s)
        | Inr poll \<Rightarrow>
            (case method of
               PUT \<Rightarrow>
                 if user = None \<or> Some (creator poll) \<noteq> user
                 then (JsonResponse False ''Permission denied'' 403, s)
                 else
                   (case body of
                      None \<Rightarrow> (JsonResponse False ''Operation failed'' 500, s)
                    | Some data \<Rightarrow>
                        let opts = dict_get (pl_options data) []
                        in if length opts < 2
                           then (JsonResponse False ''At least 2 options are required'' 400, s)
                           else
                             let s1 = Poll_save s
                                        (poll\<lparr>title := dict_get (pl_title data) (title poll),
                                              description := dict_get (pl_description data) (description poll),
                                              category := dict_get (pl_category data) (category poll)\<rparr>);
                                 s2 = (if opts \<noteq> []
                                       then create_options (poll_id poll) opts
                                              (delete_options_of s1 (poll_id poll))
                                       else s1)
                             in (JsonResponse True ''Poll updated successfully!'' 200, s2))
             | DELETE \<Rightarrow>
                 if user = None \<or> Some (creator poll) \<noteq> user
                 then (JsonResponse False ''Permission denied'' 403, s)
                 else (JsonResponse True ''Poll deleted successfully!'' 200, Poll_delete s (poll_id poll))
             | _ \<Rightarrow> (JsonResponse True [] 200, s)))"

text \<open>
  \<open>edit_poll\<close>: the poll is looked up by id and creator together, before the body is
  parsed.
\<close>

definition edit_poll :: "store \<Rightarrow> nat option \<Rightarrow> nat \<Rightarrow> poll_payload option \<Rightarrow> response \<times> store" where
  "edit_poll s user pid body =
     (case user of
        None \<Rightarrow> (JsonResponse False ''Authentication required'' 401, s)
      | Some u \<Rightarrow>
          (case get_object_or_404 Poll_fields [''id'', ''creator'']
                  (\<lambda>p. poll_id p = pid \<and> creator p = u) (polls s) of
             Inl DoesNotExist \<Rightarrow>
               (JsonResponse False ''Poll not found or you do not have permission to edit it'' 404, s)
           | Inl e \<Rightarrow> (JsonResponse False ''Unable to edit poll'' 500, s)
           | Inr poll \<Rightarrow>
               (case body of
                  None \<Rightarrow> (JsonResponse False ''Unable to edit poll'' 500, s)
                | Some data \<Rightarrow>
                    let t = strip (dict_get (pl_title data) []);
                        d = strip (dict_get (pl_description data) []);
                        c = strip (dict_get (pl_category data) [])
                    in if t = [] then (JsonResponse False ''Poll title is required'' 400, s)
                       else (JsonResponse True ''Poll updated successfully!'' 200,
                             Poll_save s (poll\<lparr>title := t, description := d, category := c\<rparr>)))))"

text \<open>
  \<open>delete_poll\<close>: the lookup names the keyword \<open>created_by\<close>, which this application's
  \<open>Poll\<close> does not have (its owner field is \<open>creator\<close>).
\<close>

definition delete_poll :: "http_method \<Rightarrow> store \<Rightarrow> nat option \<Rightarrow> nat \<Rightarrow> response \<times> store" where
  "delete_poll method s user pid =
     (case user of
        None \<Rightarrow> (JsonResponse False ''Authentication required'' 401, s)
      | Some u \<Rightarrow>
          if method = DELETE
          then (case objects_get Poll_fields [''id'', ''created_by'']
                       (\<lambda>p. poll_id p = pid \<and> creator p = u) (polls s) of
                  Inl DoesNotExist \<Rightarrow> (JsonResponse False ''Poll not found or unauthorized'' 404, s)
                | Inl e \<Rightarrow> (JsonResponse False [] 500, s)
                | Inr poll \<Rightarrow> (JsonResponse True ''Poll deleted successfully'' 200, Poll_delete s (poll_id poll)))
          else (JsonResponse False ''Invalid method'' 405, s))"

text \<open>
  What the database guarantees of the \<open>poll_system\<close> tables: primary keys are unique
  and below the next key to be handed out, and \<open>Vote.Meta.unique_together\<close> holds.
\<close>

definition one_vote_per_poll_user :: "store \<Rightarrow> bool" where
  "one_vote_per_poll_user s = distinct (map (\<lambda>v. (v_poll v, v_user v)) (votes s))"

definition store_constraints :: "store \<Rightarrow> bool" where
  "store_constraints s =
     (distinct (map poll_id (polls s)) \<and> list_all (\<lambda>p. poll_id p < next_poll_id s) (polls s) \<and>
      distinct (map option_id (options s)) \<and> list_all (\<lambda>opt. option_id opt < next_option_id s) (options s) \<and>
      distinct (map v_id (votes s)) \<and> list_all (\<lambda>v. v_id v < next_vote_id s) (votes s) \<and>
      one_vote_per_poll_user s)"

text \<open>
  Every vote is for an option of the poll it names. \<open>vote_poll\<close>, the only writer of
  votes, looks the option up by id and poll together.
\<close>

definition votes_in_poll :: "store \<Rightarrow> bool" where
  "votes_in_poll s =
     list_all (\<lambda>v. list_ex (\<lambda>opt. option_id opt = v_option v \<and> option_poll opt = v_poll v) (options s))
       (votes s)"

text \<open>A sequence of vote requests: user, poll id and body of each.\<close>

fun vote_requests :: "store \<Rightarrow> (nat option \<times> nat \<times> vote_payload option) list \<Rightarrow> store" where
  "vote_requests s [] = s"
| "vote_requests s ((user, pid, body) # rest) = vote_requests (snd (vote_poll s user pid body)) rest"

section \<open>The \<open>polls\<close> application: models\<close>

text \<open>
  \<open>polls/models.py\<close>: a second schema, with anonymous voters. A vote references an option
  only; its poll is the option's poll. \<open>Poll\<close> has the owner field \<open>created_by\<close> and no
  \<open>category\<close> field. The names of this application carry the prefix \<open>polls_\<close>.
\<close>

record polls_Poll =
  pp_id :: nat
  pp_title :: string
  pp_description :: "string option"
  pp_created_at :: nat
  pp_expires_at :: "nat option"
  pp_is_active :: bool
  pp_created_by :: "nat option"

record polls_Option =
  po_id :: nat
  po_poll :: nat
  po_text :: string
  po_order :: nat

record polls_Vote =
  pv_id :: nat
  pv_option :: nat
  pv_voter_ip :: string
  pv_voter_session :: string

record polls_store =
  ps_polls :: "polls_Poll list"
  ps_options :: "polls_Option list"
  ps_votes :: "polls_Vote list"
  ps_next_poll_id :: nat
  ps_next_option_id :: nat
  ps_next_vote_id :: nat

definition polls_Poll_fields :: "string list" where
  "polls_Poll_fields = [''id'', ''title'', ''description'', ''created_at'', ''expires_at'',
                        ''is_active'', ''created_by'', ''options'']"

text \<open>\<open>Poll.is_expired\<close>, \<open>Poll.total_votes\<close>, \<open>Option.vote_count\<close>, \<open>Vote.poll\<close>.\<close>

definition polls_is_expired :: "nat \<Rightarrow> polls_Poll \<Rightarrow> bool" where
  "polls_is_expired now p = (case pp_expires_at p of Some e \<Rightarrow> e < now | None \<Rightarrow> False)"

definition polls_Vote_poll :: "polls_store \<Rightarrow> polls_Vote \<Rightarrow> nat option" where
  "polls_Vote_poll s v =
     (case filter (\<lambda>opt. po_id opt = pv_option v) (ps_options s) of
        [] \<Rightarrow> None
      | opt # _ \<Rightarrow> Some (po_poll opt))"

definition polls_total_votes :: "polls_store \<Rightarrow> nat \<Rightarrow> nat" where
  "polls_total_votes s pid = length (filter (\<lambda>v. polls_Vote_poll s v = Some pid) (ps_votes s))"



text \<open>\<open>Poll.objects.all()\<close>: \<open>Poll.Meta.ordering\<close> is \<open>['-created_at']\<close>.\<close>

definition polls_Poll_objects_all :: "polls_store \<Rightarrow> polls_Poll list" where
  "polls_Poll_objects_all s = sort_key (\<lambda>p. - int (pp_created_at p)) (ps_polls s)"


text \<open>
  Row creation. \<open>Poll(**kwargs)\<close> raises \<open>TypeError\<close> on a keyword that is not a field.
  \<open>Option\<close> carries \<open>unique_together = ['poll', 'text']\<close> and \<open>Vote\<close> carries
  \<open>unique_together = ['option', 'voter_ip', 'voter_session']\<close>.
\<close>

definition polls_Poll_objects_create ::
  "nat \<Rightarrow> polls_store \<Rightarrow> string list \<Rightarrow> string \<Rightarrow> string option \<Rightarrow> nat option \<Rightarrow> nat option
     \<Rightarrow> exn + polls_Poll \<times> polls_store" where
  "polls_Poll_objects_create now s kws t d e u =
     (if \<not> list_all (\<lambda>k. k \<in> set polls_Poll_fields) kws then Inl TypeError
      else
        let p = \<lparr>pp_id = ps_next_poll_id s, pp_title = t, pp_description = d, pp_created_at = now,
                 pp_expires_at = e, pp_is_active = True, pp_created_by = u\<rparr>
        in Inr (p, s\<lparr>ps_polls := ps_polls s @ [p], ps_next_poll_id := Suc (ps_next_poll_id s)\<rparr>))"

definition polls_Option_objects_create :: "polls_store \<Rightarrow> nat \<Rightarrow> string \<Rightarrow> nat \<Rightarrow> exn + polls_store" where
  "polls_Option_objects_create s pid txt ord =
     (if list_ex (\<lambda>opt. po_poll opt = pid \<and> po_text opt = txt) (ps_options s) then Inl IntegrityError
      else Inr (s\<lparr>ps_options := ps_options s @ [\<lparr>po_id = ps_next_option_id s, po_poll = pid,
                                                   po_text = txt, po_order = ord\<rparr>],
                  ps_next_option_id := Suc (ps_next_option_id s)\<rparr>))"

definition polls_Vote_objects_create :: "polls_store \<Rightarrow> nat \<Rightarrow> string \<Rightarrow> string \<Rightarrow> exn + polls_store" where
  "polls_Vote_objects_create s oid ip session =
     (if list_ex (\<lambda>v. pv_option v = oid \<and> pv_voter_ip v = ip \<and> pv_voter_session v = session) (ps_votes s)
      then Inl IntegrityError
      else Inr (s\<lparr>ps_votes := ps_votes s @ [\<lparr>pv_id = ps_next_vote_id s, pv_option = oid,
                                               pv_voter_ip = ip, pv_voter_session = session\<rparr>],
                  ps_next_vote_id := Suc (ps_next_vote_id s)\<rparr>))"

definition polls_delete_options_of :: "polls_store \<Rightarrow> nat \<Rightarrow> polls_store" where
  "polls_delete_options_of s pid =
     (let gone = map po_id (filter (\<lambda>opt. po_poll opt = pid) (ps_options s))
      in s\<lparr>ps_options := filter (\<lambda>opt. po_poll opt \<noteq> pid) (ps_options s),
           ps_votes := filter (\<lambda>v. pv_option v \<notin> set gone) (ps_votes s)\<rparr>)"

definition polls_Poll_delete :: "polls_store \<Rightarrow> nat \<Rightarrow> polls_store" where
  "polls_Poll_delete s pid =
     (polls_delete_options_of s pid)\<lparr>ps_polls := filter (\<lambda>p. pp_id p \<noteq> pid) (ps_polls s)\<rparr>"

definition polls_Poll_save :: "polls_store \<Rightarrow> polls_Poll \<Rightarrow> polls_store" where
  "polls_Poll_save s p = s\<lparr>ps_polls := map (\<lambda>q. if pp_id q = pp_id p then p else q) (ps_polls s)\<rparr>"

section \<open>The \<open>polls\<close> application: request handlers\<close>

text \<open>
  \<open>VoteCreateView.post\<close> with \<open>VoteSerializer\<close>: the option must exist, \<open>validate_option\<close>
  refuses an inactive or expired poll, \<open>create\<close> adds the voter's address and session
  key, and the view answers an \<open>IntegrityError\<close> with 400.
\<close>

definition VoteCreateView_post ::
  "nat \<Rightarrow> polls_store \<Rightarrow> string \<Rightarrow> string \<Rightarrow> nat option \<Rightarrow> response \<times> polls_store" where
  "VoteCreateView_post now s ip session option_pk =
     (case option_pk of
        None \<Rightarrow> (JsonResponse False ''This field is required.'' 400, s)
      | Some oid \<Rightarrow>
          (case filter (\<lambda>opt. po_id opt = oid) (ps_options s) of
             [] \<Rightarrow> (JsonResponse False ''Invalid pk - object does not exist.'' 400, s)
           | opt # _ \<Rightarrow>
               (case filter (\<lambda>p. pp_id p = po_poll opt) (ps_polls s) of
                  [] \<Rightarrow> (JsonResponse False [] 500, s)
                | poll # _ \<Rightarrow>
                    if \<not> pp_is_active poll
                    then (JsonResponse False ''This poll is no longer active'' 400, s)
                    else if polls_is_expired now poll
                    then (JsonResponse False ''This poll has expired'' 400, s)
                    else (case polls_Vote_objects_create s (po_id opt) ip session of
                            Inl IntegrityError \<Rightarrow>
                              (JsonResponse False ''You have already voted in this poll'' 400, s)
                          | Inl e \<Rightarrow> (JsonResponse False [] 500, s)
                          | Inr s' \<Rightarrow> (JsonResponse True [] 201, s')))))"



text \<open>
  \<open>analytics_detailed\<close>. \<open>Poll.objects.values('category')\<close> names a field that the \<open>Poll\<close>
  of this application does not have: it raises \<open>FieldError\<close> when the query is built,
  after the average has been computed and before the \<open>data\<close> dictionary is. The category
  distribution is not part of the record.
\<close>

definition analytics_detailed_body :: "polls_store \<Rightarrow> exn + statistics" where
  "analytics_detailed_body s =
     (let total_polls = length (ps_polls s); total_vs = length (ps_votes s)
      in and_then (if total_polls > 0 then truediv total_vs total_polls else Inr 0)
           (\<lambda>avg_votes_per_poll.
         if \<not> list_all (\<lambda>k. k \<in> set polls_Poll_fields) [''category''] then Inl FieldError
         else
           and_then (if total_polls > 0
                     then and_then (truediv total_vs (total_polls * 10))
                            (\<lambda>q. Inr (of_int (round_half_even (q * 100))))
                     else Inr 0) (\<lambda>completion_rate.
           and_then (if total_polls > 0
                     then and_then (truediv total_vs (total_polls * 20))
                            (\<lambda>q. Inr (min 100 (of_int (round_half_even (q * 100)))))
                     else Inr 0) (\<lambda>engagement_rate.
             Inr \<lparr>completionRate = completion_rate, avgVotesPerPoll = py_round avg_votes_per_poll 1,
                  engagementRate = engagement_rate\<rparr>))))"

definition analytics_detailed :: "polls_store \<Rightarrow> response \<times> statistics option" where
  "analytics_detailed s =
     (case analytics_detailed_body s of
        Inl e \<Rightarrow> (JsonResponse False [] 500, None)
      | Inr st \<Rightarrow> (JsonResponse True [] 200, Some st))"

text \<open>\<open>analytics_top_polls\<close>: \<open>list.sort\<close> with \<open>reverse=True\<close> is stable.\<close>

definition analytics_top_polls_body :: "polls_store \<Rightarrow> exn + top_poll list" where
  "analytics_top_polls_body s =
     and_then
       (for_each (\<lambda>poll.
          let vc = polls_total_votes s (pp_id poll)
          in and_then (if vc > 0
                       then and_then (truediv vc 50) (\<lambda>q. Inr (of_int (round_half_even (q * 100))))
                       else Inr 0)
               (\<lambda>participation_rate.
                  Inr \<lparr>tp_id = pp_id poll, tp_title = pp_title poll, tp_vote_count = vc,
                       tp_participation_rate = min 100 participation_rate\<rparr>))
          (polls_Poll_objects_all s))
       (\<lambda>top. Inr (take 6 (sort_key (\<lambda>x. - int (tp_vote_count x)) top)))"

definition analytics_top_polls :: "polls_store \<Rightarrow> response \<times> top_poll list option" where
  "analytics_top_polls s =
     (case analytics_top_polls_body s of
        Inl e \<Rightarrow> (JsonResponse False [] 500, None)
      | Inr tps \<Rightarrow> (JsonResponse True [] 200, Some tps))"

text \<open>
  The form handlers of \<open>polls/views.py\<close>. \<open>login_required\<close> redirects an anonymous
  request (302). Each body is one \<open>try\<close> block whose only clause is \<open>except Exception\<close>,
  answered with 500; rows written before the exception stay written.
\<close>

fun polls_create_options :: "nat \<Rightarrow> string list \<Rightarrow> polls_store \<Rightarrow> exn option \<times> polls_store" where
  "polls_create_options pid [] s = (None, s)"
| "polls_create_options pid (txt # rest) s =
     (case polls_Option_objects_create s pid (strip txt) 0 of
        Inl e \<Rightarrow> (Some e, s)
      | Inr s' \<Rightarrow> polls_create_options pid rest s')"

definition polls_create_poll :: "nat \<Rightarrow> polls_store \<Rightarrow> nat option \<Rightarrow> poll_payload \<Rightarrow> response \<times> polls_store" where
  "polls_create_poll now s user data =
     (case user of
        None \<Rightarrow> (JsonResponse False [] 302, s)
      | Some u \<Rightarrow>
          let t = pl_title data;
              d = dict_get (pl_description data) [];
              c = dict_get (pl_category data) ''general'';
              opts = dict_get (pl_options data) []
          in if t = None \<or> t = Some [] then (JsonResponse False ''Poll title is required'' 400, s)
             else if length opts < 2 then (JsonResponse False ''At least 2 options are required'' 400, s)
             else
               (case polls_Poll_objects_create now s
                       [''title'', ''description'', ''category'', ''created_by'', ''is_active'']
                       (dict_get t []) (Some d) None (Some u) of
                  Inl e \<Rightarrow> (JsonResponse False [] 500, s)
                | Inr (poll, s1) \<Rightarrow>
                    (case polls_create_options (pp_id poll) opts s1 of
                       (Some e, s2) \<Rightarrow> (JsonResponse False [] 500, s2)
                     | (None, s2) \<Rightarrow> (JsonResponse True ''Poll created successfully'' 200, s2))))"

text \<open>
  \<open>edit_poll\<close>: the default of \<open>data.get('category', poll.category)\<close> is evaluated before
  the call, and reads an attribute that the \<open>Poll\<close> of this application does not have.
\<close>

definition polls_Poll_getattr :: "string \<Rightarrow> exn + unit" where
  "polls_Poll_getattr name = (if name \<in> set polls_Poll_fields then Inr () else Inl AttributeError)"

definition polls_edit_poll ::
  "polls_store \<Rightarrow> nat option \<Rightarrow> nat \<Rightarrow> poll_payload option \<Rightarrow> response \<times> polls_store" where
  "polls_edit_poll s user pid body =
     (case user of
        None \<Rightarrow> (JsonResponse False [] 302, s)
      | Some u \<Rightarrow>
          (case get_object_or_404 polls_Poll_fields [''id'', ''created_by'']
                  (\<lambda>p. pp_id p = pid \<and> pp_created_by p = Some u) (ps_polls s) of
             Inl e \<Rightarrow> (JsonResponse False [] 500, s)
           | Inr poll \<Rightarrow>
               (case body of
                  None \<Rightarrow> (JsonResponse False [] 500, s)
                | Some data \<Rightarrow>
                    (case polls_Poll_getattr ''category'' of
                       Inl e \<Rightarrow> (JsonResponse False [] 500, s)
                     | Inr _ \<Rightarrow>
                         let s1 = polls_Poll_save s
                                    (poll\<lparr>pp_title := dict_get (pl_title data) (pp_title poll),
                                          pp_description :=
                                            (case pl_description data of
                                               None \<Rightarrow> pp_description poll
                                             | Some d \<Rightarrow> Some d)\<rparr>)
                         in (case pl_options data of
                               None \<Rightarrow> (JsonResponse True ''Poll updated successfully'' 200, s1)
                             | Some opts \<Rightarrow>
                                 if opts \<noteq> [] \<and> length opts \<ge> 2
                                 then (case polls_create_options (pp_id poll) opts
                                              (polls_delete_options_of s1 (pp_id poll)) of
                                         (Some e, s2) \<Rightarrow> (JsonResponse False [] 500, s2)
                                       | (None, s2) \<Rightarrow>
                                           (JsonResponse True ''Poll updated successfully'' 200, s2))
                                 else (JsonResponse True ''Poll updated successfully'' 200, s1))))))"

definition polls_delete_poll :: "polls_store \<Rightarrow> nat option \<Rightarrow> nat \<Rightarrow> response \<times> polls_store" where
  "polls_delete_poll s user pid =
     (case user of
        None \<Rightarrow> (JsonResponse False [] 302, s)
      | Some u \<Rightarrow>
          (case get_object_or_404 polls_Poll_fields [''id'', ''created_by'']
                  (\<lambda>p. pp_id p = pid \<and> pp_created_by p = Some u) (ps_polls s) of
             Inl e \<Rightarrow> (JsonResponse False [] 500, s)
           | Inr poll \<Rightarrow>
               (JsonResponse True ''Poll deleted successfully'' 200, polls_Poll_delete s (pp_id poll))))"

text \<open>
  \<open>PollDetailView\<close> is a \<open>RetrieveUpdateDestroyAPIView\<close> that declares a serializer, the
  lookup field \<open>pk\<close> (the \<open>id\<close> of the poll) and a queryset of all polls, and nothing
  else. A DELETE request runs the inherited \<open>destroy\<close>: \<open>get_object\<close> looks the poll up by
  \<open>pk\<close> alone, an \<open>Http404\<close> being answered 404; the permission classes are those of the
  settings, \<open>AllowAny\<close>, so the user of the request is never consulted; the poll is
  deleted and the answer is 204. PUT and PATCH run the inherited \<open>update\<close> behind the same
  \<open>get_object\<close>.
\<close>

definition PollDetailView_destroy :: "polls_store \<Rightarrow> nat option \<Rightarrow> nat \<Rightarrow> nat \<times> polls_store" where
  "PollDetailView_destroy s user pk =
     (case get_object_or_404 polls_Poll_fields [''id''] (\<lambda>p. pp_id p = pk) (ps_polls s) of
        Inl Http404 \<Rightarrow> (404, s)
      | Inl e \<Rightarrow> (500, s)
      | Inr poll \<Rightarrow> (204, polls_Poll_delete s (pp_id poll)))"

text \<open>
  \<open>PollCreateSerializer.options\<close>: a list of 2 to 10 strings, each of 2 to 200 characters
  once trimmed, and \<open>validate_options\<close>: no string twice.
\<close>

definition PollCreateSerializer_options :: "string list \<Rightarrow> bool" where
  "PollCreateSerializer_options v =
     (2 \<le> length v \<and> length v \<le> 10 \<and>
      list_all (\<lambda>t. 2 \<le> length (strip t) \<and> length (strip t) \<le> 200) v \<and>
      distinct (map strip v))"

section \<open>Scenario stores\<close>

text \<open>
  A \<open>poll_system\<close> store with three polls, of users 7, 8 and 7. User 8 has voted for
  Pizza in the lunch poll; nobody else has voted.
\<close>

definition lunch_poll :: Poll where
  "lunch_poll = \<lparr>poll_id = 1, title = ''Lunch?'', description = [], creator = 7, created_at = 10,
                  expires_at = None, is_active = True, category = []\<rparr>"

definition dinner_poll :: Poll where
  "dinner_poll = \<lparr>poll_id = 2, title = ''Dinner?'', description = [], creator = 8, created_at = 20,
                   expires_at = None, is_active = True, category = []\<rparr>"

definition snack_poll :: Poll where
  "snack_poll = \<lparr>poll_id = 3, title = ''Snack?'', description = [], creator = 7, created_at = 30,
                  expires_at = None, is_active = True, category = []\<rparr>"

definition example_store :: store where
  "example_store =
     \<lparr>users = [7, 8, 9],
      polls = [lunch_poll, dinner_poll, snack_poll],
      options = [\<lparr>option_id = 1, option_poll = 1, option_text = ''Pizza''\<rparr>,
                 \<lparr>option_id = 2, option_poll = 1, option_text = ''Sushi''\<rparr>,
                 \<lparr>option_id = 3, option_poll = 2, option_text = ''Pasta''\<rparr>,
                 \<lparr>option_id = 4, option_poll = 2, option_text = ''Curry''\<rparr>],
      votes = [\<lparr>v_id = 1, v_poll = 1, v_option = 1, v_user = 8\<rparr>],
      next_poll_id = 4, next_option_id = 5, next_vote_id = 2\<rparr>"

definition empty_store :: store where
  "empty_store = \<lparr>users = [], polls = [], options = [], votes = [],
                   next_poll_id = 1, next_option_id = 1, next_vote_id = 1\<rparr>"

text \<open>
  Six polls created at times 1 to 6. The oldest has the only three votes of the store.
\<close>

definition numbered_poll :: "nat \<Rightarrow> Poll" where
  "numbered_poll i = \<lparr>poll_id = i, title = ''Poll'', description = [], creator = 7, created_at = i,
                       expires_at = None, is_active = True, category = []\<rparr>"

definition six_polls_store :: store where
  "six_polls_store =
     \<lparr>users = [7, 8, 9],
      polls = [numbered_poll 1, numbered_poll 2, numbered_poll 3,
               numbered_poll 4, numbered_poll 5, numbered_poll 6],
      options = [\<lparr>option_id = 1, option_poll = 1, option_text = ''Yes''\<rparr>,
                 \<lparr>option_id = 2, option_poll = 1, option_text = ''No''\<rparr>],
      votes = [\<lparr>v_id = 1, v_poll = 1, v_option = 1, v_user = 7\<rparr>,
               \<lparr>v_id = 2, v_poll = 1, v_option = 1, v_user = 8\<rparr>,
               \<lparr>v_id = 3, v_poll = 1, v_option = 2, v_user = 9\<rparr>],
      next_poll_id = 7, next_option_id = 3, next_vote_id = 4\<rparr>"

text \<open>
  A \<open>polls\<close> store: one poll of user 8 with two options; three anonymous votes, one for
  the first option and two for the second.
\<close>

definition example_polls_store :: polls_store where
  "example_polls_store =
     \<lparr>ps_polls = [\<lparr>pp_id = 1, pp_title = ''Lunch?'', pp_description = None, pp_created_at = 10,
                    pp_expires_at = None, pp_is_active = True, pp_created_by = Some 8\<rparr>],
      ps_options = [\<lparr>po_id = 1, po_poll = 1, po_text = ''Pizza'', po_order = 0\<rparr>,
                    \<lparr>po_id = 2, po_poll = 1, po_text = ''Sushi'', po_order = 1\<rparr>],
      ps_votes = [\<lparr>pv_id = 1, pv_option = 1, pv_voter_ip = ''10.0.0.1'', pv_voter_session = ''a''\<rparr>,
                  \<lparr>pv_id = 2, pv_option = 2, pv_voter_ip = ''10.0.0.2'', pv_voter_session = ''b''\<rparr>,
                  \<lparr>pv_id = 3, pv_option = 2, pv_voter_ip = ''10.0.0.3'', pv_voter_session = ''c''\<rparr>],
      ps_next_poll_id = 2, ps_next_option_id = 3, ps_next_vote_id = 4\<rparr>"

definition empty_polls_store :: polls_store where
  "empty_polls_store = \<lparr>ps_polls = [], ps_options = [], ps_votes = [],
                         ps_next_poll_id = 1, ps_next_option_id = 1, ps_next_vote_id = 1\<rparr>"

definition edit_payload :: poll_payload where
  "edit_payload = \<lparr>pl_title = Some ''Lunch today?'', pl_description = None, pl_category = None,
                    pl_expires_at = None, pl_options = Some [''Pizza'', ''Ramen'']\<rparr>"




text \<open>A \<open>polls\<close> store with one open poll, its two options and no votes yet.\<close>

definition one_poll_store :: polls_store where
  "one_poll_store =
     \<lparr>ps_polls = [\<lparr>pp_id = 1, pp_title = ''Lunch?'', pp_description = None, pp_created_at = 0,
                    pp_expires_at = None, pp_is_active = True, pp_created_by = None\<rparr>],
      ps_options = [\<lparr>po_id = 1, po_poll = 1, po_text = ''Pizza'', po_order = 0\<rparr>,
                    \<lparr>po_id = 2, po_poll = 1, po_text = ''Sushi'', po_order = 1\<rparr>],
      ps_votes = [],
      ps_next_poll_id = 2, ps_next_option_id = 3, ps_next_vote_id = 1\<rparr>"

section \<open>Reachable stores\<close>

text \<open>
  The \<open>poll_system\<close> stores that the handlers can produce: from tables that hold users
  only, by any sequence of requests to the handlers that write.
\<close>

inductive reachable :: "store \<Rightarrow> bool" where
  initial: "reachable (empty_store\<lparr>users := us\<rparr>)"
| after_create_poll: "reachable s \<Longrightarrow> reachable (snd (create_poll fromisoformat now s user data))"
| after_vote_poll: "reachable s \<Longrightarrow> reachable (snd (vote_poll s user pid vote_body))"
| after_poll_detail: "reachable s \<Longrightarrow> reachable (snd (poll_detail method s user pid body))"
| after_edit_poll: "reachable s \<Longrightarrow> reachable (snd (edit_poll s user pid body))"
| after_delete_poll: "reachable s \<Longrightarrow> reachable (snd (delete_poll method s user pid))"

text \<open>The table constraints together with the consistency of votes and options.\<close>

definition store_invariant :: "store \<Rightarrow> bool" where
  "store_invariant s = (store_constraints s \<and> votes_in_poll s)"

section \<open>Auxiliary facts\<close>

lemma round_half_even_bounds: "\<bar>of_int (round_half_even q) - q\<bar> \<le> 1 / 2"
proof -
  have "of_int \<lfloor>q\<rfloor> \<le> q" "q < of_int \<lfloor>q\<rfloor> + 1" by linarith+
  then show ?thesis
    unfolding round_half_even_def Let_def
    by (simp add: abs_if) linarith
qed

lemma py_round_error: "\<bar>py_round x n - x\<bar> \<le> 1 / (2 * 10 ^ n)"
proof -
  have p: "(0::rat) < 10 ^ n" by simp
  have "\<bar>py_round x n - x\<bar> = \<bar>of_int (round_half_even (x * 10 ^ n)) - x * 10 ^ n\<bar> / 10 ^ n"
    using p by (simp add: py_round_def field_simps abs_if)
  also have "\<dots> \<le> (1 / 2) / 10 ^ n"
    by (rule divide_right_mono [OF round_half_even_bounds]) simp
  finally show ?thesis by simp
qed

lemma py_round_decimals: "py_round x n * 10 ^ n = of_int (round_half_even (x * 10 ^ n))"
  by (simp add: py_round_def)


lemma floor_numeral_div: "\<lfloor>numeral a / numeral b :: rat\<rfloor> = numeral a div numeral b"
  using floor_divide_of_int_eq [of "numeral a" "numeral b", where ?'a = rat] by simp

lemma for_each_total:
  "(\<And>x. x \<in> set xs \<Longrightarrow> f x = Inr (g x)) \<Longrightarrow> for_each f xs = Inr (map g xs)"
  by (induction xs) simp_all

lemma take_sort_key_dominates:
  assumes "x \<in> set (take n (sort_key f xs))" and "y \<in> set xs"
    and "y \<notin> set (take n (sort_key f xs))"
  shows "f x \<le> f y"
proof -
  let ?L = "sort_key f xs"
  have "sorted (map f (take n ?L @ drop n ?L))" by simp
  then have d: "\<forall>a\<in>set (take n ?L). \<forall>b\<in>set (drop n ?L). f a \<le> f b"
    unfolding map_append sorted_append by auto
  have "y \<in> set (take n ?L @ drop n ?L)" using assms(2) by simp
  then have "y \<in> set (drop n ?L)" using assms(3) unfolding set_append by blast
  with d assms(1) show ?thesis by blast
qed

lemma filter_key_unique:
  "distinct (map f xs) \<Longrightarrow> x \<in> set xs \<Longrightarrow> filter (\<lambda>y. f y = f x) xs = [x]"
proof (induction xs)
  case Nil
  then show ?case by simp
next
  case (Cons a xs)
  show ?case
  proof (cases "a = x")
    case True
    have "f x \<notin> f ` set xs"
      using Cons.prems(1) True by simp
    then have "\<forall>y\<in>set xs. f y \<noteq> f x"
      by (metis imageI)
    then have "filter (\<lambda>y. f y = f x) xs = []"
      by (simp add: filter_empty_conv)
    with True show ?thesis by simp
  next
    case False
    with Cons.prems have "x \<in> set xs" "f a \<noteq> f x" by auto
    with Cons show ?thesis by simp
  qed
qed

lemma filter_key_unique_and:
  assumes "distinct (map f xs)" and "x \<in> set xs" and "P x"
  shows "filter (\<lambda>y. f y = f x \<and> P y) xs = [x]"
proof -
  have "filter (\<lambda>y. f y = f x \<and> P y) xs = filter P (filter (\<lambda>y. f y = f x) xs)"
    by (simp add: conj_commute)
  with assms show ?thesis by (simp add: filter_key_unique)
qed

lemma get_object_or_404_Inr:
  assumes "get_object_or_404 fs kws P rows = Inr x"
  shows "x \<in> set rows \<and> P x"
proof -
  from assms have "filter P rows = [x]"
    by (auto simp add: get_object_or_404_def objects_get_def
          split: if_splits list.splits sum.splits exn.splits)
  then have "x \<in> set (filter P rows)" by simp
  then show ?thesis by simp
qed

lemma get_poll_by_id:
  assumes "distinct (map poll_id (polls s))" and "poll \<in> set (polls s)"
  shows "get_object_or_404 Poll_fields [''id''] (\<lambda>p. poll_id p = poll_id poll) (polls s) = Inr poll"
  using filter_key_unique [OF assms]
  by (simp add: get_object_or_404_def objects_get_def Poll_fields_def)

lemma get_option_by_id_poll:
  assumes "distinct (map option_id (options s))" and "opt \<in> set (options s)"
    and "option_poll opt = pid"
  shows "get_object_or_404 PollOption_fields [''id'', ''poll'']
           (\<lambda>x. option_id x = option_id opt \<and> option_poll x = pid) (options s) = Inr opt"
  using filter_key_unique_and [of option_id "options s" opt "\<lambda>x. option_poll x = pid"] assms
  by (simp add: get_object_or_404_def objects_get_def PollOption_fields_def)

lemma get_option_missing:
  assumes "\<not> list_ex (\<lambda>x. option_id x = oid \<and> option_poll x = pid) (options s)"
  shows "get_object_or_404 PollOption_fields [''id'', ''poll'']
           (\<lambda>x. option_id x = oid \<and> option_poll x = pid) (options s) = Inl Http404"
proof -
  have "filter (\<lambda>x. option_id x = oid \<and> option_poll x = pid) (options s) = []"
    using assms by (simp add: filter_empty_conv list_ex_iff)
  then show ?thesis
    by (simp add: get_object_or_404_def objects_get_def PollOption_fields_def)
qed

lemma Vote_first_Nil: "Vote_first [] = None"
  by (simp add: Vote_first_def)

lemma Vote_first_single: "Vote_first [v] = Some v"
  by (simp add: Vote_first_def)

lemma Vote_first_mem: "Vote_first vs = Some e \<Longrightarrow> e \<in> set vs"
proof -
  assume "Vote_first vs = Some e"
  then obtain rest where "sort_key v_id vs = e # rest"
    by (auto simp add: Vote_first_def split: list.splits)
  then have "e \<in> set (sort_key v_id vs)" by simp
  then show ?thesis by simp
qed

lemma prior_vote_unique:
  assumes "one_vote_per_poll_user s" and "e \<in> set (votes s)"
  shows "filter (\<lambda>v. v_poll v = v_poll e \<and> v_user v = v_user e) (votes s) = [e]"
proof -
  have "filter (\<lambda>v. (v_poll v, v_user v) = (v_poll e, v_user e)) (votes s) = [e]"
    using assms unfolding one_vote_per_poll_user_def
    by (rule filter_key_unique [where f = "\<lambda>v. (v_poll v, v_user v)"])
  then show ?thesis by simp
qed

lemma no_prior_vote:
  assumes "\<not> list_ex (\<lambda>v. v_poll v = pid \<and> v_user v = u) (votes s)"
  shows "filter (\<lambda>v. v_poll v = pid \<and> v_user v = u) (votes s) = []"
  using assms by (simp add: filter_empty_conv list_ex_iff)

lemma Vote_save_option:
  assumes "one_vote_per_poll_user s" and "e \<in> set (votes s)"
  shows "Vote_save s (e\<lparr>v_option := oid\<rparr>) =
           Inr (s\<lparr>votes := map (\<lambda>w. if v_id w = v_id e then e\<lparr>v_option := oid\<rparr> else w) (votes s)\<rparr>)"
proof -
  have "\<not> list_ex (\<lambda>w. v_id w \<noteq> v_id e \<and> v_poll w = v_poll e \<and> v_user w = v_user e) (votes s)"
  proof
    assume "list_ex (\<lambda>w. v_id w \<noteq> v_id e \<and> v_poll w = v_poll e \<and> v_user w = v_user e) (votes s)"
    then obtain w where w: "w \<in> set (votes s)" "v_id w \<noteq> v_id e" "v_poll w = v_poll e" "v_user w = v_user e"
      by (auto simp add: list_ex_iff)
    then have "w \<in> set (filter (\<lambda>v. v_poll v = v_poll e \<and> v_user v = v_user e) (votes s))" by simp
    then have "w = e" using prior_vote_unique [OF assms] by simp
    with w(2) show False by simp
  qed
  then show ?thesis by (simp add: Vote_save_def)
qed

section \<open>One vote per poll and voter\<close>

subsection \<open>Authenticated voters: \<open>poll_system\<close>\<close>

text \<open>
  Both writes of \<open>vote_poll\<close> keep the constraints of the tables, so after any sequence
  of vote requests a user has at most one vote in a poll.
\<close>

lemma Vote_objects_create_constraints:
  assumes "store_constraints s" and "Vote_objects_create s pid oid u = Inr s'"
  shows "store_constraints s'"
proof -
  from assms(2) have fresh: "\<not> list_ex (\<lambda>v. v_poll v = pid \<and> v_user v = u) (votes s)"
    and s': "s' = s\<lparr>votes := votes s @ [\<lparr>v_id = next_vote_id s, v_poll = pid, v_option = oid, v_user = u\<rparr>],
                    next_vote_id := Suc (next_vote_id s)\<rparr>"
    by (auto simp add: Vote_objects_create_def split: if_splits)
  from assms(1) have lt: "\<forall>v\<in>set (votes s). v_id v < next_vote_id s"
    by (simp add: store_constraints_def list_all_iff)
  then have "next_vote_id s \<notin> v_id ` set (votes s)" by auto
  moreover have "(pid, u) \<notin> (\<lambda>v. (v_poll v, v_user v)) ` set (votes s)"
    using fresh by (auto simp add: list_ex_iff)
  moreover have "\<forall>v\<in>set (votes s). v_id v < Suc (next_vote_id s)"
    using lt by auto
  ultimately show ?thesis
    using assms(1) unfolding s' store_constraints_def one_vote_per_poll_user_def
    by (simp add: list_all_iff)
qed

lemma Vote_save_rows:
  assumes "distinct (map v_id (votes s))" and "e \<in> set (votes s)"
  shows "map (\<lambda>w. if v_id w = v_id e then e\<lparr>v_option := oid\<rparr> else w) (votes s)
         = map (\<lambda>w. if w = e then e\<lparr>v_option := oid\<rparr> else w) (votes s)"
proof (rule map_cong [OF refl])
  fix w assume "w \<in> set (votes s)"
  then have "v_id w = v_id e \<longleftrightarrow> w = e"
    using assms by (auto simp add: distinct_map inj_on_def)
  then show "(if v_id w = v_id e then e\<lparr>v_option := oid\<rparr> else w) = (if w = e then e\<lparr>v_option := oid\<rparr> else w)"
    by simp
qed

lemma Vote_save_keys:
  "map (v_id \<circ> (\<lambda>w. if w = e then e\<lparr>v_option := oid\<rparr> else w)) vs = map v_id vs"
  "map ((\<lambda>v. (v_poll v, v_user v)) \<circ> (\<lambda>w. if w = e then e\<lparr>v_option := oid\<rparr> else w)) vs
   = map (\<lambda>v. (v_poll v, v_user v)) vs"
  by (induction vs) auto

lemma Vote_save_constraints:
  assumes "store_constraints s" and "e \<in> set (votes s)"
    and "Vote_save s (e\<lparr>v_option := oid\<rparr>) = Inr s'"
  shows "store_constraints s'"
proof -
  from assms(1) have d: "distinct (map v_id (votes s))" by (simp add: store_constraints_def)
  from assms(3) have s': "s' = s\<lparr>votes := map (\<lambda>w. if v_id w = v_id e then e\<lparr>v_option := oid\<rparr> else w) (votes s)\<rparr>"
    by (auto simp add: Vote_save_def split: if_splits)
  let ?vs = "map (\<lambda>w. if w = e then e\<lparr>v_option := oid\<rparr> else w) (votes s)"
  have s'': "s' = s\<lparr>votes := ?vs\<rparr>"
    using s' Vote_save_rows [OF d assms(2)] by simp
  have "list_all (\<lambda>v. v_id v < next_vote_id s) ?vs"
    using assms(1,2) by (auto simp add: store_constraints_def list_all_iff)
  then show ?thesis
    using assms(1) unfolding s'' store_constraints_def one_vote_per_poll_user_def
    by (simp add: Vote_save_keys)
qed

lemma vote_poll_body_constraints:
  assumes "store_constraints s" and "vote_poll_body s u pid oid = Inr (msg, s')"
  shows "store_constraints s'"
  using assms
  by (auto simp add: vote_poll_body_def and_then_def
        split: sum.splits option.splits
        dest!: Vote_first_mem
        intro: Vote_objects_create_constraints Vote_save_constraints)

lemma vote_poll_constraints:
  "store_constraints s \<Longrightarrow> store_constraints (snd (vote_poll s user pid body))"
  by (auto simp add: vote_poll_def split: option.splits sum.splits intro: vote_poll_body_constraints)

lemma vote_requests_constraints:
  "store_constraints s \<Longrightarrow> store_constraints (vote_requests s reqs)"
  by (induction s reqs rule: vote_requests.induct) (simp_all add: vote_poll_constraints)

lemma one_vote_per_poll_user_count:
  "one_vote_per_poll_user s \<Longrightarrow> length (filter (\<lambda>v. v_poll v = pid \<and> v_user v = u) (votes s)) \<le> 1"
proof -
  assume a: "one_vote_per_poll_user s"
  show ?thesis
  proof (cases "filter (\<lambda>v. v_poll v = pid \<and> v_user v = u) (votes s)")
    case Nil
    then show ?thesis by simp
  next
    case (Cons e es)
    then have "e \<in> set (filter (\<lambda>v. v_poll v = pid \<and> v_user v = u) (votes s))" by simp
    then have e: "e \<in> set (votes s)" "v_poll e = pid" "v_user e = u" by simp_all
    from prior_vote_unique [OF a e(1)] e show ?thesis by simp
  qed
qed

lemma vote_requests_one_vote:
  "store_constraints s \<Longrightarrow>
   length (filter (\<lambda>v. v_poll v = pid \<and> v_user v = u) (votes (vote_requests s reqs))) \<le> 1"
  using vote_requests_constraints [of s reqs]
    one_vote_per_poll_user_count [of "vote_requests s reqs" pid u]
  by (simp add: store_constraints_def)

subsection \<open>Anonymous voters: \<open>polls\<close>\<close>

text \<open>
  C1. The uniqueness constraint of \<open>polls.Vote\<close> is on (option, address, session), not
  on the poll. One voter, with address 10.0.0.1 and session \<open>k\<close>, votes for option 1 of
  poll 1 and then for option 2 of the same poll: both requests are answered 201 and the
  table then holds two votes of that voter in poll 1. Only a repeated vote for the same
  option is refused, with the message that the voter has already voted in this poll.
\<close>

theorem VoteCreateView_post_second_vote_in_poll:
  "VoteCreateView_post now one_poll_store ''10.0.0.1'' ''k'' (Some 1) =
     (JsonResponse True [] 201,
      one_poll_store
        \<lparr>ps_votes := [\<lparr>pv_id = 1, pv_option = 1, pv_voter_ip = ''10.0.0.1'', pv_voter_session = ''k''\<rparr>],
         ps_next_vote_id := 2\<rparr>) \<and>
   VoteCreateView_post now
     (snd (VoteCreateView_post now one_poll_store ''10.0.0.1'' ''k'' (Some 1)))
     ''10.0.0.1'' ''k'' (Some 2) =
     (JsonResponse True [] 201,
      one_poll_store
        \<lparr>ps_votes := [\<lparr>pv_id = 1, pv_option = 1, pv_voter_ip = ''10.0.0.1'', pv_voter_session = ''k''\<rparr>,
                      \<lparr>pv_id = 2, pv_option = 2, pv_voter_ip = ''10.0.0.1'', pv_voter_session = ''k''\<rparr>],
         ps_next_vote_id := 3\<rparr>) \<and>
   polls_Vote_poll one_poll_store
     \<lparr>pv_id = 1, pv_option = 1, pv_voter_ip = ''10.0.0.1'', pv_voter_session = ''k''\<rparr> = Some 1 \<and>
   polls_Vote_poll one_poll_store
     \<lparr>pv_id = 2, pv_option = 2, pv_voter_ip = ''10.0.0.1'', pv_voter_session = ''k''\<rparr> = Some 1 \<and>
   fst (VoteCreateView_post now
          (snd (VoteCreateView_post now one_poll_store ''10.0.0.1'' ''k'' (Some 1)))
          ''10.0.0.1'' ''k'' (Some 1)) =
     JsonResponse False ''You have already voted in this poll'' 400"
  by (simp add: VoteCreateView_post_def polls_Vote_objects_create_def polls_is_expired_def
        polls_Vote_poll_def one_poll_store_def)

section \<open>Poll creation: number of options\<close>

lemma create_poll_too_few:
  "strip (dict_get (pl_title data) []) \<noteq> [] \<Longrightarrow> length (dict_get (pl_options data) []) < 2 \<Longrightarrow>
   create_poll fromisoformat now s (Some u) data =
     (JsonResponse False ''At least 2 options are required'' 400, s)"
  by (simp add: create_poll_def Let_def)

lemma create_poll_too_many:
  "strip (dict_get (pl_title data) []) \<noteq> [] \<Longrightarrow> 10 < length (dict_get (pl_options data) []) \<Longrightarrow>
   create_poll fromisoformat now s (Some u) data =
     (JsonResponse False ''Maximum 10 options allowed'' 400, s)"
  by (simp add: create_poll_def Let_def)

lemma create_poll_accepts:
  "strip (dict_get (pl_title data) []) \<noteq> [] \<Longrightarrow> 2 \<le> length (dict_get (pl_options data) []) \<Longrightarrow>
   length (dict_get (pl_options data) []) \<le> 10 \<Longrightarrow>
   fst (create_poll fromisoformat now s (Some u) data) = JsonResponse True ''Poll created successfully!'' 200"
  by (simp add: create_poll_def Let_def split: prod.splits)

lemma PollCreateSerializer_options_bounds:
  "PollCreateSerializer_options v \<Longrightarrow> 2 \<le> length v \<and> length v \<le> 10"
  by (simp add: PollCreateSerializer_options_def)

text \<open>
  C5. \<open>create_poll\<close> of \<open>polls/views.py\<close> compares the number of options with 2 only. A
  request with a title and eleven options passes its validation and reaches
  \<open>Poll.objects.create\<close>, which is called with the keyword \<open>category\<close>; the \<open>Poll\<close> of
  that application has no such field, so the call raises and the handler answers 500,
  not 400.
\<close>

theorem polls_create_poll_eleven_options:
  "polls_create_poll now s (Some u)
     \<lparr>pl_title = Some ''Best fruit?'', pl_description = None, pl_category = None,
      pl_expires_at = None,
      pl_options = Some [''o01'', ''o02'', ''o03'', ''o04'', ''o05'', ''o06'',
                         ''o07'', ''o08'', ''o09'', ''o10'', ''o11'']\<rparr>
   = (JsonResponse False [] 500, s)"
  by (simp add: polls_create_poll_def dict_get_def polls_Poll_objects_create_def
        polls_Poll_fields_def Let_def)

text \<open>
  C10. \<open>create_poll\<close> compares the length of the submitted list with 2 and 10 before any
  entry is stripped, and the loop that persists the options skips the entries that are
  blank after stripping. The request with options \<open>["Pizza", "  "]\<close> is accepted in every
  store, for every logged-in user: the response is 200, one poll row is added, and
  exactly one option row is added for it, so the persisted poll has fewer than 2 options.
\<close>

theorem create_poll_persists_fewer_than_two_options:
  "create_poll fromisoformat now s (Some u)
     \<lparr>pl_title = Some ''Lunch?'', pl_description = None, pl_category = None,
      pl_expires_at = None, pl_options = Some [''Pizza'', ''  '']\<rparr>
   = (JsonResponse True ''Poll created successfully!'' 200,
      s\<lparr>polls := polls s @ [\<lparr>poll_id = next_poll_id s, title = ''Lunch?'', description = [],
                                 creator = u, created_at = now, expires_at = None,
                                 is_active = True, category = []\<rparr>],
        next_poll_id := Suc (next_poll_id s),
        options := options s @ [\<lparr>option_id = next_option_id s, option_poll = next_poll_id s,
                                  option_text = ''Pizza''\<rparr>],
        next_option_id := Suc (next_option_id s)\<rparr>)"
  by (simp add: create_poll_def dict_get_def Poll_objects_create_def create_options_def
        PollOption_objects_create_def Let_def strip_def isspace_def)

section \<open>The vote endpoint\<close>

text \<open>
  What \<open>vote_poll\<close> does for a logged-in user and a poll of the store. A body that is
  not a JSON object is answered 500. A missing (or zero) \<open>option_id\<close> is answered 400. An
  \<open>option_id\<close> of an option of the poll creates a vote when the user has none in the
  poll and otherwise overwrites the option of the user's vote, with 200 either way. An
  \<open>option_id\<close> that names no option of the poll is answered 500. Except on the two
  successful paths the store is unchanged.
\<close>

lemma vote_poll_contract:
  assumes "store_constraints s" and "poll \<in> set (polls s)"
  shows
   "vote_poll s (Some u) (poll_id poll) None = (JsonResponse False ''Unable to vote'' 500, s) \<and>
    (vp_option_id data = None \<or> vp_option_id data = Some 0 \<longrightarrow>
       vote_poll s (Some u) (poll_id poll) (Some data) =
         (JsonResponse False ''Option ID is required'' 400, s)) \<and>
    (\<forall>opt. opt \<in> set (options s) \<and> option_poll opt = poll_id poll \<and> option_id opt \<noteq> 0 \<longrightarrow>
       (\<not> list_ex (\<lambda>v. v_poll v = poll_id poll \<and> v_user v = u) (votes s) \<longrightarrow>
          vote_poll s (Some u) (poll_id poll) (Some \<lparr>vp_option_id = Some (option_id opt)\<rparr>) =
            (JsonResponse True ''Vote submitted successfully!'' 200,
             s\<lparr>votes := votes s @ [\<lparr>v_id = next_vote_id s, v_poll = poll_id poll,
                                     v_option = option_id opt, v_user = u\<rparr>],
               next_vote_id := Suc (next_vote_id s)\<rparr>)) \<and>
       (\<forall>e. e \<in> set (votes s) \<and> v_poll e = poll_id poll \<and> v_user e = u \<longrightarrow>
          vote_poll s (Some u) (poll_id poll) (Some \<lparr>vp_option_id = Some (option_id opt)\<rparr>) =
            (JsonResponse True ''Vote updated successfully!'' 200,
             s\<lparr>votes := map (\<lambda>w. if v_id w = v_id e then e\<lparr>v_option := option_id opt\<rparr> else w) (votes s)\<rparr>))) \<and>
    (\<forall>oid. oid \<noteq> 0 \<and> \<not> list_ex (\<lambda>opt. option_id opt = oid \<and> option_poll opt = poll_id poll) (options s) \<longrightarrow>
       vote_poll_body s u (poll_id poll) oid = Inl Http404 \<and>
       vote_poll s (Some u) (poll_id poll) (Some \<lparr>vp_option_id = Some oid\<rparr>) =
         (JsonResponse False ''Unable to vote'' 500, s))"
proof -
  from assms(1) have dp: "distinct (map poll_id (polls s))"
    and dopt: "distinct (map option_id (options s))"
    and uq: "one_vote_per_poll_user s"
    by (simp_all add: store_constraints_def)
  note gp = get_poll_by_id [OF dp assms(2)]
  have nobody: "vote_poll s (Some u) (poll_id poll) None = (JsonResponse False ''Unable to vote'' 500, s)"
    by (simp add: vote_poll_def)
  have missing: "vote_poll s (Some u) (poll_id poll) (Some data) =
      (JsonResponse False ''Option ID is required'' 400, s)"
    if "vp_option_id data = None \<or> vp_option_id data = Some 0"
    using that by (auto simp add: vote_poll_def)
  have created: "vote_poll s (Some u) (poll_id poll) (Some \<lparr>vp_option_id = Some (option_id opt)\<rparr>) =
            (JsonResponse True ''Vote submitted successfully!'' 200,
             s\<lparr>votes := votes s @ [\<lparr>v_id = next_vote_id s, v_poll = poll_id poll,
                                     v_option = option_id opt, v_user = u\<rparr>],
               next_vote_id := Suc (next_vote_id s)\<rparr>)"
    if "opt \<in> set (options s)" "option_poll opt = poll_id poll" "option_id opt \<noteq> 0"
      "\<not> list_ex (\<lambda>v. v_poll v = poll_id poll \<and> v_user v = u) (votes s)" for opt
    using that gp get_option_by_id_poll [OF dopt that(1) that(2)] no_prior_vote [OF that(4)]
    by (simp add: vote_poll_def vote_poll_body_def and_then_def Vote_first_Nil Vote_objects_create_def)
  have updated: "vote_poll s (Some u) (poll_id poll) (Some \<lparr>vp_option_id = Some (option_id opt)\<rparr>) =
            (JsonResponse True ''Vote updated successfully!'' 200,
             s\<lparr>votes := map (\<lambda>w. if v_id w = v_id e then e\<lparr>v_option := option_id opt\<rparr> else w) (votes s)\<rparr>)"
    if "opt \<in> set (options s)" "option_poll opt = poll_id poll" "option_id opt \<noteq> 0"
      "e \<in> set (votes s)" "v_poll e = poll_id poll" "v_user e = u" for opt e
    using that gp get_option_by_id_poll [OF dopt that(1) that(2)]
      prior_vote_unique [OF uq that(4)] Vote_save_option [OF uq that(4), of "option_id opt"]
    by (simp add: vote_poll_def vote_poll_body_def and_then_def Vote_first_single)
  have raised: "vote_poll_body s u (poll_id poll) oid = Inl Http404"
    if "\<not> list_ex (\<lambda>opt. option_id opt = oid \<and> option_poll opt = poll_id poll) (options s)" for oid
    using gp get_option_missing [OF that]
    by (simp add: vote_poll_body_def and_then_def)
  have foreign: "vote_poll s (Some u) (poll_id poll) (Some \<lparr>vp_option_id = Some oid\<rparr>) =
      (JsonResponse False ''Unable to vote'' 500, s)"
    if "oid \<noteq> 0" "\<not> list_ex (\<lambda>opt. option_id opt = oid \<and> option_poll opt = poll_id poll) (options s)" for oid
    using raised [OF that(2)] that(1)
    by (simp add: vote_poll_def)
  show ?thesis
    using nobody missing created updated raised foreign
    by simp
qed

text \<open>
  C7. Option 3 belongs to poll 2. The vote of user 7 for it in poll 1 makes the option
  lookup raise \<open>Http404\<close>; the handler's \<open>except Exception\<close> catches it and the answer is
  500, not a 400 error. The store is unchanged.
\<close>

theorem vote_poll_foreign_option:
  "vote_poll_body example_store 7 1 3 = Inl Http404 \<and>
   vote_poll example_store (Some 7) 1 (Some \<lparr>vp_option_id = Some 3\<rparr>) =
     (JsonResponse False ''Unable to vote'' 500, example_store)"
  by (simp add: vote_poll_def vote_poll_body_def and_then_def get_object_or_404_def objects_get_def
        Poll_fields_def PollOption_fields_def example_store_def lunch_poll_def dinner_poll_def
        snack_poll_def)

section \<open>Ownership\<close>

lemma no_poll_of_other_user:
  assumes "distinct (map poll_id (polls s))" and "poll \<in> set (polls s)" and "creator poll \<noteq> u"
  shows "filter (\<lambda>p. poll_id p = poll_id poll \<and> creator p = u) (polls s) = []"
proof -
  have "filter (\<lambda>p. poll_id p = poll_id poll \<and> creator p = u) (polls s)
        = filter (\<lambda>p. creator p = u) (filter (\<lambda>p. poll_id p = poll_id poll) (polls s))"
    by (simp add: conj_commute)
  also have "\<dots> = filter (\<lambda>p. creator p = u) [poll]"
    using filter_key_unique [OF assms(1,2)] by simp
  finally show ?thesis using assms(3) by simp
qed

text \<open>
  \<open>poll_detail\<close> checks the owner itself: for a poll of the store and a logged-in user
  who is not its creator, whatever the body (\<open>None\<close> is a body that is not JSON), PUT and
  DELETE are answered 403 and the store is unchanged.
\<close>

lemma poll_detail_non_creator:
  assumes "distinct (map poll_id (polls s))" and "poll \<in> set (polls s)" and "creator poll \<noteq> u"
  shows
   "poll_detail PUT s (Some u) (poll_id poll) body = (JsonResponse False ''Permission denied'' 403, s) \<and>
    poll_detail DELETE s (Some u) (poll_id poll) body = (JsonResponse False ''Permission denied'' 403, s)"
  using get_poll_by_id [OF assms(1,2)] assms(3) by (simp add: poll_detail_def)

text \<open>
  The handlers that look the poll up by id and owner together: for a user who is not
  the creator the lookup raises \<open>Http404\<close>, the handler's \<open>except Exception\<close> catches it,
  and the answer is 500 with the store unchanged.
\<close>

lemma owner_lookup_non_creator:
  assumes "distinct (map poll_id (polls s))" and "poll \<in> set (polls s)" and "creator poll \<noteq> u"
    and "list_all (\<lambda>p. pp_id p = pid \<longrightarrow> pp_created_by p \<noteq> Some w) (ps_polls ps)"
  shows
   "edit_poll s (Some u) (poll_id poll) body = (JsonResponse False ''Unable to edit poll'' 500, s) \<and>
    polls_edit_poll ps (Some w) pid body = (JsonResponse False [] 500, ps) \<and>
    polls_delete_poll ps (Some w) pid = (JsonResponse False [] 500, ps)"
proof -
  have ed: "edit_poll s (Some u) (poll_id poll) body = (JsonResponse False ''Unable to edit poll'' 500, s)"
    using no_poll_of_other_user [OF assms(1,2,3)]
    by (simp add: edit_poll_def get_object_or_404_def objects_get_def Poll_fields_def)
  have none: "filter (\<lambda>p. pp_id p = pid \<and> pp_created_by p = Some w) (ps_polls ps) = []"
    using assms(4) by (auto simp add: filter_empty_conv list_all_iff)
  have ped: "polls_edit_poll ps (Some w) pid body = (JsonResponse False [] 500, ps)"
    using none by (simp add: polls_edit_poll_def get_object_or_404_def objects_get_def polls_Poll_fields_def)
  have pdl: "polls_delete_poll ps (Some w) pid = (JsonResponse False [] 500, ps)"
    using none by (simp add: polls_delete_poll_def get_object_or_404_def objects_get_def polls_Poll_fields_def)
  show ?thesis
    unfolding ed ped pdl by simp
qed

text \<open>
  \<open>delete_poll\<close> of \<open>poll_system\<close> names the keyword \<open>created_by\<close>, which its \<open>Poll\<close> does
  not have: the lookup raises \<open>FieldError\<close> for every logged-in user, the creator too.
\<close>

lemma delete_poll_field_error:
  "delete_poll DELETE s (Some u) pid = (JsonResponse False [] 500, s)"
  by (simp add: delete_poll_def objects_get_def Poll_fields_def)

text \<open>
  \<open>PollDetailView\<close> deletes every poll of the store for every user of the request, logged
  in or not.
\<close>

lemma PollDetailView_destroy_any_user:
  assumes "distinct (map pp_id (ps_polls ps))" and "poll \<in> set (ps_polls ps)"
  shows "PollDetailView_destroy ps user (pp_id poll) = (204, polls_Poll_delete ps (pp_id poll))"
  using filter_key_unique [OF assms]
  by (simp add: PollDetailView_destroy_def get_object_or_404_def objects_get_def polls_Poll_fields_def)

text \<open>
  C4. The only poll of the store is the poll of user 8, with two options and three
  votes. User 7 sends DELETE to \<open>PollDetailView\<close>: the answer is 204 and the poll, its
  options and its votes are gone. User 7 sends an edit to \<open>edit_poll\<close> of
  \<open>polls/views.py\<close>: the owner lookup raises \<open>Http404\<close>, the only \<open>except\<close> clause catches
  it and the answer is 500. Neither request is answered 403.
\<close>

theorem non_creator_delete_succeeds:
  "map pp_created_by (ps_polls example_polls_store) = [Some 8] \<and>
   PollDetailView_destroy example_polls_store (Some 7) 1 =
     (204, example_polls_store\<lparr>ps_polls := [], ps_options := [], ps_votes := []\<rparr>) \<and>
   get_object_or_404 polls_Poll_fields [''id'', ''created_by'']
     (\<lambda>p. pp_id p = 1 \<and> pp_created_by p = Some 7) (ps_polls example_polls_store) = Inl Http404 \<and>
   polls_edit_poll example_polls_store (Some 7) 1 (Some edit_payload) =
     (JsonResponse False [] 500, example_polls_store)"
  by (simp add: PollDetailView_destroy_def polls_Poll_delete_def polls_delete_options_of_def
        polls_edit_poll_def get_object_or_404_def objects_get_def polls_Poll_fields_def
        example_polls_store_def Let_def)

section \<open>Updating a poll's options\<close>

lemma create_options_frame:
  "votes (create_options pid opts s) = votes s \<and> polls (create_options pid opts s) = polls s \<and>
   (\<exists>new. options (create_options pid opts s) = options s @ new \<and>
          (\<forall>opt\<in>set new. option_poll opt = pid \<and> next_option_id s \<le> option_id opt))"
proof (induction opts arbitrary: s)
  case Nil
  then show ?case by (simp add: create_options_def)
next
  case (Cons t ts)
  show ?case
  proof (cases "strip t = []")
    case True
    then have "create_options pid (t # ts) s = create_options pid ts s"
      by (simp add: create_options_def)
    with Cons show ?thesis by simp
  next
    case False
    let ?s1 = "PollOption_objects_create s pid (strip t)"
    have step: "create_options pid (t # ts) s = create_options pid ts ?s1"
      using False by (simp add: create_options_def)
    from Cons [of ?s1] obtain new where
      v: "votes (create_options pid ts ?s1) = votes ?s1"
      and p: "polls (create_options pid ts ?s1) = polls ?s1"
      and n: "options (create_options pid ts ?s1) = options ?s1 @ new"
      and b: "\<forall>opt\<in>set new. option_poll opt = pid \<and> next_option_id ?s1 \<le> option_id opt"
      by blast
    let ?row = "\<lparr>option_id = next_option_id s, option_poll = pid, option_text = strip t\<rparr>"
    have "options (create_options pid (t # ts) s) = options s @ (?row # new)"
      using n step by (simp add: PollOption_objects_create_def)
    moreover have "\<forall>opt\<in>set (?row # new). option_poll opt = pid \<and> next_option_id s \<le> option_id opt"
      using b by (auto simp add: PollOption_objects_create_def)
    ultimately show ?thesis
      using v p step by (auto simp add: PollOption_objects_create_def)
  qed
qed

lemma votes_of_poll_deleted:
  assumes "votes_in_poll s"
  shows "filter (\<lambda>v. v_poll v = pid)
           (filter (\<lambda>v. v_option v \<notin> set (map option_id (filter (\<lambda>opt. option_poll opt = pid) (options s))))
              (votes s)) = []"
proof -
  have "v_option v \<in> set (map option_id (filter (\<lambda>opt. option_poll opt = pid) (options s)))"
    if "v \<in> set (votes s)" "v_poll v = pid" for v
  proof -
    from assms that(1) obtain opt where "opt \<in> set (options s)"
      "option_id opt = v_option v" "option_poll opt = v_poll v"
      by (auto simp add: votes_in_poll_def list_all_iff list_ex_iff)
    with that(2) show ?thesis by force
  qed
  then show ?thesis by (auto simp add: filter_empty_conv)
qed

text \<open>
  C9. In a store that satisfies the constraints of its tables and in which every vote
  is for an option of its poll, a PUT on \<open>poll_detail\<close> that is answered 200 comes from
  the poll's creator with a body of at least 2 options; afterwards no option row that
  the poll had is left, the votes that referenced those rows are gone with them, and
  the poll's total vote count is 0.
\<close>

theorem poll_detail_put_deletes_votes:
  assumes "store_constraints s" and "votes_in_poll s" and "poll \<in> set (polls s)"
    and "poll_detail PUT s user (poll_id poll) body = (r, s')" and "status r = 200"
  shows "user = Some (creator poll) \<and>
         (\<exists>data. body = Some data \<and> 2 \<le> length (dict_get (pl_options data) [])) \<and>
         (\<forall>opt\<in>set (options s). option_poll opt = poll_id poll \<longrightarrow> opt \<notin> set (options s')) \<and>
         votes s' = filter (\<lambda>v. v_option v \<notin> set (map option_id
                                                    (filter (\<lambda>opt. option_poll opt = poll_id poll) (options s))))
                      (votes s) \<and>
         total_votes s' (poll_id poll) = 0"
proof -
  from assms(1) have dp: "distinct (map poll_id (polls s))"
    and lt: "\<forall>opt\<in>set (options s). option_id opt < next_option_id s"
    by (simp_all add: store_constraints_def list_all_iff)
  note gp = get_poll_by_id [OF dp assms(3)]
  from assms(4,5) gp have u: "user = Some (creator poll)"
    by (auto simp add: poll_detail_def JsonResponse_def split: if_splits)
  from assms(4,5) gp u obtain data where bd: "body = Some data"
    by (cases body) (auto simp add: poll_detail_def JsonResponse_def)
  let ?opts = "dict_get (pl_options data) []"
  from assms(4,5) gp u bd have len: "2 \<le> length ?opts"
    by (auto simp add: poll_detail_def JsonResponse_def Let_def split: if_splits)
  then have ne: "?opts \<noteq> []" by auto
  let ?s1 = "Poll_save s (poll\<lparr>title := dict_get (pl_title data) (title poll),
                               description := dict_get (pl_description data) (description poll),
                               category := dict_get (pl_category data) (category poll)\<rparr>)"
  let ?s2 = "delete_options_of ?s1 (poll_id poll)"
  from assms(4) gp u bd len ne have s': "s' = create_options (poll_id poll) ?opts ?s2"
    by (simp add: poll_detail_def Let_def)
  have o1: "options ?s1 = options s" and v1: "votes ?s1 = votes s"
    and n1: "next_option_id ?s1 = next_option_id s"
    by (simp_all add: Poll_save_def)
  have o2: "options ?s2 = filter (\<lambda>opt. option_poll opt \<noteq> poll_id poll) (options s)"
    and v2: "votes ?s2 = filter (\<lambda>v. v_option v \<notin> set (map option_id (filter (\<lambda>opt. option_poll opt = poll_id poll) (options s)))) (votes s)"
    and n2: "next_option_id ?s2 = next_option_id s"
    using o1 v1 n1 by (simp_all add: delete_options_of_def Let_def)
  from create_options_frame [of "poll_id poll" ?opts ?s2] obtain new where
    v3: "votes s' = votes ?s2"
    and o3: "options s' = options ?s2 @ new"
    and b3: "\<forall>opt\<in>set new. option_poll opt = poll_id poll \<and> next_option_id ?s2 \<le> option_id opt"
    unfolding s' by blast
  have old_gone: "opt \<notin> set (options s')" if "opt \<in> set (options s)" "option_poll opt = poll_id poll" for opt
  proof
    assume "opt \<in> set (options s')"
    then have "opt \<in> set new" using o3 o2 that(2) by auto
    then have "next_option_id s \<le> option_id opt" using b3 n2 by auto
    moreover have "option_id opt < next_option_id s" using lt that(1) by blast
    ultimately show False by simp
  qed
  have vs: "votes s' = filter (\<lambda>v. v_option v \<notin> set (map option_id
                                  (filter (\<lambda>opt. option_poll opt = poll_id poll) (options s)))) (votes s)"
    using v3 v2 by simp
  have tv: "total_votes s' (poll_id poll) = 0"
    using votes_of_poll_deleted [OF assms(2), of "poll_id poll"] v3 v2
    by (simp add: total_votes_def)
  from u bd len old_gone vs tv show ?thesis by blast
qed

theorem poll_detail_put_deletes_votes_witness:
  "store_constraints example_store \<and> votes_in_poll example_store \<and>
   lunch_poll \<in> set (polls example_store) \<and>
   status (fst (poll_detail PUT example_store (Some 7) 1 (Some edit_payload))) = 200 \<and>
   total_votes example_store 1 = 1 \<and>
   total_votes (snd (poll_detail PUT example_store (Some 7) 1 (Some edit_payload))) 1 = 0 \<and>
   votes (snd (poll_detail PUT example_store (Some 7) 1 (Some edit_payload))) = []"
proof -
  have c: "store_constraints example_store"
    by (simp add: store_constraints_def one_vote_per_poll_user_def example_store_def
          lunch_poll_def dinner_poll_def snack_poll_def)
  have w: "votes_in_poll example_store"
    by (simp add: votes_in_poll_def example_store_def)
  have m: "lunch_poll \<in> set (polls example_store)" by (simp add: example_store_def)
  have i: "poll_id lunch_poll = 1" by (simp add: lunch_poll_def)
  obtain r s' where rs: "poll_detail PUT example_store (Some 7) 1 (Some edit_payload) = (r, s')"
    by (cases "poll_detail PUT example_store (Some 7) 1 (Some edit_payload)")
  have st: "status r = 200"
    using rs
    by (auto simp add: poll_detail_def get_object_or_404_def objects_get_def Poll_fields_def
          example_store_def lunch_poll_def dinner_poll_def snack_poll_def edit_payload_def
          dict_get_def JsonResponse_def Let_def)
  note t = poll_detail_put_deletes_votes [OF c w m rs [folded i] st]
  have v: "votes s' = []"
    using t by (simp add: example_store_def lunch_poll_def)
  have b: "total_votes example_store 1 = 1"
    by (simp add: total_votes_def example_store_def)
  from c w m rs st t v b show ?thesis by (simp add: i)
qed

section \<open>Results and percentages\<close>

lemmas example_defs = example_store_def lunch_poll_def dinner_poll_def snack_poll_def







lemma py_round_is_rounding:
  "(\<exists>k::int. py_round x n * 10 ^ n = of_int k) \<and> \<bar>py_round x n - x\<bar> \<le> 1 / (2 * 10 ^ n)"
  using py_round_decimals [of x n] py_round_error [of x n] by blast






section \<open>Top polls\<close>

lemma top_polls_body_eq:
  "top_polls_body s =
     Inr (map (\<lambda>poll. \<lparr>tp_id = poll_id poll, tp_title = title poll,
                         tp_vote_count = total_votes s (poll_id poll),
                         tp_participation_rate =
                           (if users s = [] then 0
                            else py_round (of_nat (total_votes s (poll_id poll)) / of_nat (length (users s)) * 100) 2)\<rparr>)
            (top_polls_query s))"
  unfolding top_polls_body_def
  by (rule for_each_total) (simp add: and_then_def truediv_def Let_def)

lemma analytics_top_polls_body_eq:
  "analytics_top_polls_body s =
     Inr (take 6 (sort_key (\<lambda>x. - int (tp_vote_count x))
            (map (\<lambda>poll. \<lparr>tp_id = pp_id poll, tp_title = pp_title poll,
                            tp_vote_count = polls_total_votes s (pp_id poll),
                            tp_participation_rate =
                              min 100 (if polls_total_votes s (pp_id poll) > 0
                                       then of_int (round_half_even
                                              (of_nat (polls_total_votes s (pp_id poll)) / of_nat 50 * 100))
                                       else 0)\<rparr>)
               (polls_Poll_objects_all s))))"
proof -
  have "for_each (\<lambda>poll.
          let vc = polls_total_votes s (pp_id poll)
          in and_then (if vc > 0
                       then and_then (truediv vc 50) (\<lambda>q. Inr (of_int (round_half_even (q * 100))))
                       else Inr 0)
               (\<lambda>participation_rate.
                  Inr \<lparr>tp_id = pp_id poll, tp_title = pp_title poll, tp_vote_count = vc,
                       tp_participation_rate = min 100 participation_rate\<rparr>))
          (polls_Poll_objects_all s)
        = Inr (map (\<lambda>poll. \<lparr>tp_id = pp_id poll, tp_title = pp_title poll,
                            tp_vote_count = polls_total_votes s (pp_id poll),
                            tp_participation_rate =
                              min 100 (if polls_total_votes s (pp_id poll) > 0
                                       then of_int (round_half_even
                                              (of_nat (polls_total_votes s (pp_id poll)) / of_nat 50 * 100))
                                       else 0)\<rparr>)
               (polls_Poll_objects_all s))"
    by (rule for_each_total) (simp add: and_then_def truediv_def Let_def)
  then show ?thesis
    by (simp add: analytics_top_polls_body_def and_then_def)
qed

lemma sorted_desc_take_sort_key:
  fixes c :: "'a \<Rightarrow> nat"
  shows "sorted_wrt (\<lambda>a b. c b \<le> c a) (take n (sort_key (\<lambda>x. - int (c x)) xs))"
proof -
  have "sorted (map (\<lambda>x. - int (c x)) (sort_key (\<lambda>x. - int (c x)) xs))" by simp
  then have "sorted_wrt (\<lambda>a b. c b \<le> c a) (sort_key (\<lambda>x. - int (c x)) xs)"
    by (simp add: sorted_map)
  then show ?thesis by (rule sorted_wrt_take)
qed

lemma dominates_take_sort_key:
  fixes c :: "'a \<Rightarrow> nat"
  assumes "x \<in> set (take n (sort_key (\<lambda>x. - int (c x)) xs))" and "y \<in> set xs"
    and "y \<notin> set (take n (sort_key (\<lambda>x. - int (c x)) xs))"
  shows "c y \<le> c x"
  using take_sort_key_dominates [OF assms] by simp

lemma distinct_map_sort_key:
  assumes "distinct (map g xs)"
  shows "distinct (map g (sort_key f xs))"
proof -
  from assms have "distinct xs" and "inj_on g (set xs)" by (simp_all add: distinct_map)
  then show ?thesis by (simp add: distinct_map)
qed

lemma distinct_map_take_sort_key:
  assumes "distinct (map g xs)"
  shows "distinct (map g (take n (sort_key f xs)))"
proof -
  from distinct_map_sort_key [OF assms] have "distinct (take n (map g (sort_key f xs)))"
    by (rule distinct_take)
  then show ?thesis by (simp add: take_map)
qed

text \<open>
  C8, as the code has it. \<open>top_polls\<close> returns the polls that have at least one vote,
  in descending order of vote count, cut to the first 10; \<open>analytics_top_polls\<close> returns
  all polls in descending order of vote count, cut to the first 6. In both, every
  returned entry is a poll of the store with its title and its vote count; no poll is
  returned twice (the ids of the polls being distinct); every poll that qualifies is
  returned unless the limit is reached; and every poll of the store that is not returned
  has at most as many votes as every returned one.
\<close>

theorem top_polls_sorted_truncated:
  "(\<exists>tps. top_polls s = (JsonResponse True [] 200, Some tps) \<and>
      length tps = min 10 (length (filter (\<lambda>p. 0 < total_votes s (poll_id p)) (polls s))) \<and>
      sorted_wrt (\<lambda>a b. tp_vote_count b \<le> tp_vote_count a) tps \<and>
      (\<forall>e\<in>set tps. 0 < tp_vote_count e \<and>
         (\<exists>p\<in>set (polls s). tp_id e = poll_id p \<and> tp_title e = title p \<and>
            tp_vote_count e = total_votes s (poll_id p))) \<and>
      (distinct (map poll_id (polls s)) \<longrightarrow> distinct (map tp_id tps)) \<and>
      ((\<forall>p\<in>set (polls s). 0 < total_votes s (poll_id p) \<longrightarrow> poll_id p \<in> set (map tp_id tps)) \<or>
       length tps = 10) \<and>
      (\<forall>p\<in>set (polls s). poll_id p \<notin> set (map tp_id tps) \<longrightarrow>
         (\<forall>e\<in>set tps. total_votes s (poll_id p) \<le> tp_vote_count e))) \<and>
   (\<exists>tps. analytics_top_polls ps = (JsonResponse True [] 200, Some tps) \<and>
      length tps = min 6 (length (ps_polls ps)) \<and>
      sorted_wrt (\<lambda>a b. tp_vote_count b \<le> tp_vote_count a) tps \<and>
      (\<forall>e\<in>set tps. \<exists>p\<in>set (ps_polls ps). tp_id e = pp_id p \<and> tp_title e = pp_title p \<and>
         tp_vote_count e = polls_total_votes ps (pp_id p)) \<and>
      (distinct (map pp_id (ps_polls ps)) \<longrightarrow> distinct (map tp_id tps)) \<and>
      ((\<forall>p\<in>set (ps_polls ps). pp_id p \<in> set (map tp_id tps)) \<or> length tps = 6) \<and>
      (\<forall>p\<in>set (ps_polls ps). pp_id p \<notin> set (map tp_id tps) \<longrightarrow>
         (\<forall>e\<in>set tps. polls_total_votes ps (pp_id p) \<le> tp_vote_count e)))"
proof (rule conjI)
  let ?c = "\<lambda>p. total_votes s (poll_id p)"
  let ?mk = "\<lambda>poll. \<lparr>tp_id = poll_id poll, tp_title = title poll,
                         tp_vote_count = total_votes s (poll_id poll),
                         tp_participation_rate =
                           (if users s = [] then 0
                            else py_round (of_nat (total_votes s (poll_id poll)) / of_nat (length (users s)) * 100) 2)\<rparr>"
  let ?V = "filter (\<lambda>p. 0 < ?c p) (polls s)"
  let ?Q = "top_polls_query s"
  let ?tps = "map ?mk ?Q"
  have Q: "?Q = take 10 (sort_key (\<lambda>p. - int (?c p)) ?V)"
    by (simp add: top_polls_query_def)
  have r: "top_polls s = (JsonResponse True [] 200, Some ?tps)"
    by (simp add: top_polls_def top_polls_body_eq)
  have len: "length ?tps = min 10 (length ?V)"
    unfolding Q by (simp add: min.commute)
  have "sorted_wrt (\<lambda>a b. ?c b \<le> ?c a) ?Q"
    unfolding Q by (rule sorted_desc_take_sort_key)
  then have srt: "sorted_wrt (\<lambda>a b. tp_vote_count b \<le> tp_vote_count a) ?tps"
    by (simp add: sorted_wrt_map)
  have sub: "set ?Q \<subseteq> set ?V"
    unfolding Q using set_take_subset [of 10 "sort_key (\<lambda>p. - int (?c p)) ?V"]
    by simp
  have ent: "\<forall>e\<in>set ?tps. 0 < tp_vote_count e \<and>
         (\<exists>p\<in>set (polls s). tp_id e = poll_id p \<and> tp_title e = title p \<and>
            tp_vote_count e = total_votes s (poll_id p))"
    using sub by auto
  have ids: "map tp_id ?tps = map poll_id ?Q"
    by (simp add: comp_def)
  have dst: "distinct (map poll_id (polls s)) \<longrightarrow> distinct (map tp_id ?tps)"
  proof
    assume "distinct (map poll_id (polls s))"
    then have "distinct (map poll_id ?V)" by (rule distinct_map_filter)
    then have "distinct (map poll_id ?Q)" unfolding Q by (rule distinct_map_take_sort_key)
    then show "distinct (map tp_id ?tps)" unfolding ids .
  qed
  have all: "(\<forall>p\<in>set (polls s). 0 < total_votes s (poll_id p) \<longrightarrow> poll_id p \<in> set (map tp_id ?tps)) \<or>
       length ?tps = 10"
  proof (cases "length ?V \<le> 10")
    case True
    then have "?Q = sort_key (\<lambda>p. - int (?c p)) ?V" unfolding Q by simp
    then have "set ?Q = set ?V" by simp
    then have "\<forall>p\<in>set (polls s). 0 < total_votes s (poll_id p) \<longrightarrow> poll_id p \<in> poll_id ` set ?Q"
      by auto
    then show ?thesis unfolding ids by simp
  next
    case False
    with len show ?thesis by simp
  qed
  have dom: "\<forall>p\<in>set (polls s). poll_id p \<notin> set (map tp_id ?tps) \<longrightarrow>
         (\<forall>e\<in>set ?tps. total_votes s (poll_id p) \<le> tp_vote_count e)"
  proof (intro ballI impI)
    fix p e assume p: "p \<in> set (polls s)" and nid: "poll_id p \<notin> set (map tp_id ?tps)"
      and e: "e \<in> set ?tps"
    from e obtain q where q: "q \<in> set ?Q" "e = ?mk q" by auto
    have pn: "p \<notin> set ?Q" using nid by (auto simp add: comp_def)
    show "total_votes s (poll_id p) \<le> tp_vote_count e"
    proof (cases "0 < ?c p")
      case False
      then show ?thesis by simp
    next
      case True
      with p have "p \<in> set ?V" by simp
      from dominates_take_sort_key [OF q(1) [unfolded Q] this pn [unfolded Q]]
      show ?thesis using q(2) by simp
    qed
  qed
  from r len srt ent dst all dom
  show "\<exists>tps. top_polls s = (JsonResponse True [] 200, Some tps) \<and>
      length tps = min 10 (length (filter (\<lambda>p. 0 < total_votes s (poll_id p)) (polls s))) \<and>
      sorted_wrt (\<lambda>a b. tp_vote_count b \<le> tp_vote_count a) tps \<and>
      (\<forall>e\<in>set tps. 0 < tp_vote_count e \<and>
         (\<exists>p\<in>set (polls s). tp_id e = poll_id p \<and> tp_title e = title p \<and>
            tp_vote_count e = total_votes s (poll_id p))) \<and>
      (distinct (map poll_id (polls s)) \<longrightarrow> distinct (map tp_id tps)) \<and>
      ((\<forall>p\<in>set (polls s). 0 < total_votes s (poll_id p) \<longrightarrow> poll_id p \<in> set (map tp_id tps)) \<or>
       length tps = 10) \<and>
      (\<forall>p\<in>set (polls s). poll_id p \<notin> set (map tp_id tps) \<longrightarrow>
         (\<forall>e\<in>set tps. total_votes s (poll_id p) \<le> tp_vote_count e))"
    by (intro exI [of _ ?tps] conjI)
next
  let ?mk = "\<lambda>poll. \<lparr>tp_id = pp_id poll, tp_title = pp_title poll,
                            tp_vote_count = polls_total_votes ps (pp_id poll),
                            tp_participation_rate =
                              min 100 (if polls_total_votes ps (pp_id poll) > 0
                                       then of_int (round_half_even
                                              (of_nat (polls_total_votes ps (pp_id poll)) / of_nat 50 * 100))
                                       else 0)\<rparr>"
  let ?all = "map ?mk (polls_Poll_objects_all ps)"
  let ?tps = "take 6 (sort_key (\<lambda>x. - int (tp_vote_count x)) ?all)"
  have r: "analytics_top_polls ps = (JsonResponse True [] 200, Some ?tps)"
    by (simp add: analytics_top_polls_def analytics_top_polls_body_eq)
  have sall: "set ?all = ?mk ` set (ps_polls ps)"
    by (simp add: polls_Poll_objects_all_def)
  have len: "length ?tps = min 6 (length (ps_polls ps))"
    by (simp add: polls_Poll_objects_all_def min.commute)
  have srt: "sorted_wrt (\<lambda>a b. tp_vote_count b \<le> tp_vote_count a) ?tps"
    by (rule sorted_desc_take_sort_key)
  have sub: "set ?tps \<subseteq> set ?all"
    using set_take_subset [of 6 "sort_key (\<lambda>x. - int (tp_vote_count x)) ?all"] by simp
  have ent: "\<forall>e\<in>set ?tps. \<exists>p\<in>set (ps_polls ps). tp_id e = pp_id p \<and> tp_title e = pp_title p \<and>
         tp_vote_count e = polls_total_votes ps (pp_id p)"
  proof
    fix e assume "e \<in> set ?tps"
    with sub have "e \<in> ?mk ` set (ps_polls ps)" unfolding sall by blast
    then show "\<exists>p\<in>set (ps_polls ps). tp_id e = pp_id p \<and> tp_title e = pp_title p \<and>
         tp_vote_count e = polls_total_votes ps (pp_id p)"
      by auto
  qed
  have idall: "map tp_id ?all = map pp_id (polls_Poll_objects_all ps)"
    by (simp add: comp_def)
  have dst: "distinct (map pp_id (ps_polls ps)) \<longrightarrow> distinct (map tp_id ?tps)"
  proof
    assume "distinct (map pp_id (ps_polls ps))"
    then have "distinct (map pp_id (polls_Poll_objects_all ps))"
      unfolding polls_Poll_objects_all_def by (rule distinct_map_sort_key)
    then have "distinct (map tp_id ?all)" unfolding idall .
    then show "distinct (map tp_id ?tps)" by (rule distinct_map_take_sort_key)
  qed
  have all: "(\<forall>p\<in>set (ps_polls ps). pp_id p \<in> set (map tp_id ?tps)) \<or> length ?tps = 6"
  proof (cases "length (ps_polls ps) \<le> 6")
    case True
    then have "length (sort_key (\<lambda>x. - int (tp_vote_count x)) ?all) \<le> 6"
      by (simp add: polls_Poll_objects_all_def)
    then have "?tps = sort_key (\<lambda>x. - int (tp_vote_count x)) ?all" by (rule take_all)
    then have st: "set ?tps = ?mk ` set (ps_polls ps)" using sall by simp
    have "\<forall>p\<in>set (ps_polls ps). pp_id p \<in> tp_id ` set ?tps"
    proof
      fix p assume "p \<in> set (ps_polls ps)"
      then have "?mk p \<in> set ?tps" unfolding st by (rule imageI)
      then have "tp_id (?mk p) \<in> tp_id ` set ?tps" by (rule imageI)
      then show "pp_id p \<in> tp_id ` set ?tps" by simp
    qed
    then show ?thesis by simp
  next
    case False
    with len show ?thesis by simp
  qed
  have dom: "\<forall>p\<in>set (ps_polls ps). pp_id p \<notin> set (map tp_id ?tps) \<longrightarrow>
         (\<forall>e\<in>set ?tps. polls_total_votes ps (pp_id p) \<le> tp_vote_count e)"
  proof (intro ballI impI)
    fix p e assume p: "p \<in> set (ps_polls ps)" and nid: "pp_id p \<notin> set (map tp_id ?tps)"
      and e: "e \<in> set ?tps"
    have pin: "?mk p \<in> set ?all" unfolding sall using p by blast
    have pn: "?mk p \<notin> set ?tps"
    proof
      assume "?mk p \<in> set ?tps"
      then have "tp_id (?mk p) \<in> tp_id ` set ?tps" by (rule imageI)
      with nid show False by simp
    qed
    from dominates_take_sort_key [OF e pin pn]
    show "polls_total_votes ps (pp_id p) \<le> tp_vote_count e" by simp
  qed
  from r len srt ent dst all dom
  show "\<exists>tps. analytics_top_polls ps = (JsonResponse True [] 200, Some tps) \<and>
      length tps = min 6 (length (ps_polls ps)) \<and>
      sorted_wrt (\<lambda>a b. tp_vote_count b \<le> tp_vote_count a) tps \<and>
      (\<forall>e\<in>set tps. \<exists>p\<in>set (ps_polls ps). tp_id e = pp_id p \<and> tp_title e = pp_title p \<and>
         tp_vote_count e = polls_total_votes ps (pp_id p)) \<and>
      (distinct (map pp_id (ps_polls ps)) \<longrightarrow> distinct (map tp_id tps)) \<and>
      ((\<forall>p\<in>set (ps_polls ps). pp_id p \<in> set (map tp_id tps)) \<or> length tps = 6) \<and>
      (\<forall>p\<in>set (ps_polls ps). pp_id p \<notin> set (map tp_id tps) \<longrightarrow>
         (\<forall>e\<in>set tps. polls_total_votes ps (pp_id p) \<le> tp_vote_count e))"
    by (intro exI [of _ ?tps] conjI)
qed

theorem top_polls_sorted_truncated_witness:
  "dinner_poll \<in> set (polls example_store) \<and>
   distinct (map poll_id (polls example_store)) \<and>
   distinct (map pp_id (ps_polls example_polls_store)) \<and>
   (\<exists>tps. top_polls example_store = (JsonResponse True [] 200, Some tps) \<and>
          map tp_id tps = [1] \<and> map tp_title tps = [''Lunch?''] \<and> distinct (map tp_id tps) \<and>
          poll_id dinner_poll \<notin> set (map tp_id tps) \<and>
          (\<forall>e\<in>set tps. 0 < tp_vote_count e \<and> total_votes example_store (poll_id dinner_poll) \<le> tp_vote_count e)) \<and>
   (\<exists>tps. analytics_top_polls example_polls_store = (JsonResponse True [] 200, Some tps) \<and>
          map tp_id tps = [1] \<and> distinct (map tp_id tps) \<and> (\<forall>e\<in>set tps. tp_vote_count e = 3))"
proof -
  have m: "dinner_poll \<in> set (polls example_store)" by (simp add: example_defs)
  have d: "distinct (map poll_id (polls example_store))" by (simp add: example_defs)
  have d': "distinct (map pp_id (ps_polls example_polls_store))" by (simp add: example_polls_store_def)
  from top_polls_sorted_truncated [of example_store example_polls_store]
  obtain tps tps' where
    r: "top_polls example_store = (JsonResponse True [] 200, Some tps)"
    and pos: "\<forall>e\<in>set tps. 0 < tp_vote_count e \<and>
         (\<exists>p\<in>set (polls example_store). tp_id e = poll_id p \<and> tp_title e = title p \<and>
            tp_vote_count e = total_votes example_store (poll_id p))"
    and dst: "distinct (map poll_id (polls example_store)) \<longrightarrow> distinct (map tp_id tps)"
    and dom: "\<forall>p\<in>set (polls example_store). poll_id p \<notin> set (map tp_id tps) \<longrightarrow>
         (\<forall>e\<in>set tps. total_votes example_store (poll_id p) \<le> tp_vote_count e)"
    and r': "analytics_top_polls example_polls_store = (JsonResponse True [] 200, Some tps')"
    and ent': "\<forall>e\<in>set tps'. \<exists>p\<in>set (ps_polls example_polls_store).
         tp_id e = pp_id p \<and> tp_title e = pp_title p \<and>
         tp_vote_count e = polls_total_votes example_polls_store (pp_id p)"
    and dst': "distinct (map pp_id (ps_polls example_polls_store)) \<longrightarrow> distinct (map tp_id tps')"
    and len': "length tps' = min 6 (length (ps_polls example_polls_store))"
    by blast
  from r have ids: "map tp_id tps = [1]" and ttl: "map tp_title tps = [''Lunch?'']"
    by (auto simp add: top_polls_def top_polls_body_eq top_polls_query_def total_votes_def example_defs)
  then have nin: "poll_id dinner_poll \<notin> set (map tp_id tps)" by (simp add: example_defs)
  from dst d have dt: "distinct (map tp_id tps)" by blast
  from dst' d' have dt': "distinct (map tp_id tps')" by blast
  from dom m nin have le: "\<forall>e\<in>set tps. total_votes example_store (poll_id dinner_poll) \<le> tp_vote_count e"
    by blast
  from pos have pos': "\<forall>e\<in>set tps. 0 < tp_vote_count e" by blast
  have c': "\<forall>e\<in>set tps'. tp_vote_count e = 3"
    using ent' by (auto simp add: polls_total_votes_def polls_Vote_poll_def example_polls_store_def)
  have i': "\<forall>e\<in>set tps'. tp_id e = 1"
    using ent' by (auto simp add: example_polls_store_def)
  from len' have "length tps' = 1" by (simp add: example_polls_store_def)
  then obtain e where "tps' = [e]" by (cases tps') auto
  with i' have ids': "map tp_id tps' = [1]" by simp
  from pos' le have both: "\<forall>e\<in>set tps. 0 < tp_vote_count e \<and>
      total_votes example_store (poll_id dinner_poll) \<le> tp_vote_count e"
    by blast
  from r ids ttl dt nin both
  have A: "\<exists>tps. top_polls example_store = (JsonResponse True [] 200, Some tps) \<and>
          map tp_id tps = [1] \<and> map tp_title tps = [''Lunch?''] \<and> distinct (map tp_id tps) \<and>
          poll_id dinner_poll \<notin> set (map tp_id tps) \<and>
          (\<forall>e\<in>set tps. 0 < tp_vote_count e \<and> total_votes example_store (poll_id dinner_poll) \<le> tp_vote_count e)"
    by (intro exI [of _ tps] conjI)
  from r' ids' dt' c'
  have B: "\<exists>tps. analytics_top_polls example_polls_store = (JsonResponse True [] 200, Some tps) \<and>
          map tp_id tps = [1] \<and> distinct (map tp_id tps) \<and> (\<forall>e\<in>set tps. tp_vote_count e = 3)"
    by (intro exI [of _ tps'] conjI)
  from m d d' A B show ?thesis by (intro conjI)
qed

text \<open>
  The claim as written fails. \<open>top_polls\<close> does not return the polls without votes: of
  three polls, well under its limit, it returns one. And \<open>popular_polls\<close> of
  \<open>analytics_data\<close> cuts to the five newest polls before it sorts: the oldest of six
  polls, the only one with votes, is not returned, while five polls without votes are.
\<close>

theorem top_polls_counterexample:
  "top_polls example_store =
     (JsonResponse True [] 200,
      Some [\<lparr>tp_id = 1, tp_title = ''Lunch?'', tp_vote_count = 1, tp_participation_rate = 3333 / 100\<rparr>]) \<and>
   map poll_id (polls example_store) = [1, 2, 3] \<and>
   map pop_id (popular_polls six_polls_store) = [6, 5, 4, 3, 2] \<and>
   map pop_vote_count (popular_polls six_polls_store) = [0, 0, 0, 0, 0] \<and>
   total_votes six_polls_store 1 = 3"
  by (simp add: top_polls_def top_polls_body_eq top_polls_query_def total_votes_def example_defs
        popular_polls_def Poll_objects_all_def six_polls_store_def numbered_poll_def
        py_round_def round_half_even_def Let_def floor_numeral_div)


section \<open>System statistics\<close>

lemma detailed_statistics_body_eq:
  "detailed_statistics_body s =
     Inr \<lparr>completionRate =
            (if polls s = [] then 0
             else py_round (of_nat (polls_with_votes s) / of_nat (length (polls s)) * 100) 2),
          avgVotesPerPoll =
            (if polls s = [] then 0
             else py_round (of_nat (length (votes s)) / of_nat (length (polls s))) 2),
          engagementRate =
            (if users s = [] then 0
             else py_round (of_nat (users_who_voted s) / of_nat (length (users s)) * 100) 2)\<rparr>"
  by (simp add: detailed_statistics_body_def and_then_def truediv_def Let_def)

lemma polls_with_votes_eq:
  "polls_with_votes s = length (filter (\<lambda>p. \<exists>v\<in>set (votes s). v_poll v = poll_id p) (polls s))"
proof -
  have "(0 < total_votes s pid) = (\<exists>v\<in>set (votes s). v_poll v = pid)" for pid
    by (auto simp add: total_votes_def filter_empty_conv)
  then show ?thesis by (simp add: polls_with_votes_def)
qed

text \<open>
  C6, as the code has it. \<open>detailed_statistics\<close> returns a completion rate of 0 when
  there are no polls, and otherwise the number of polls with at least one vote divided
  by the number of polls, times 100, rounded to 2 decimal places (a multiple of 0.01
  within 0.005 of the exact value).
\<close>

theorem completion_rate:
  "\<exists>st. detailed_statistics s = (JsonResponse True [] 200, Some st) \<and>
      (polls s = [] \<longrightarrow> completionRate st = 0) \<and>
      (polls s \<noteq> [] \<longrightarrow>
         (\<exists>k::int. completionRate st * 100 = of_int k) \<and>
         \<bar>completionRate st
            - of_nat (length (filter (\<lambda>p. \<exists>v\<in>set (votes s). v_poll v = poll_id p) (polls s)))
              / of_nat (length (polls s)) * 100\<bar> \<le> 1 / 200)"
proof -
  let ?x = "of_nat (polls_with_votes s) / of_nat (length (polls s)) * 100 :: rat"
  from py_round_is_rounding [of ?x 2]
  have "(\<exists>k::int. py_round ?x 2 * 100 = of_int k) \<and> \<bar>py_round ?x 2 - ?x\<bar> \<le> 1 / 200"
    by simp
  then show ?thesis
    by (simp add: detailed_statistics_def detailed_statistics_body_eq polls_with_votes_eq [symmetric])
qed

text \<open>
  The claim as written fails: with one poll of three voted on, the completion rate that
  \<open>detailed_statistics\<close> returns is 33.33, not 100/3.
\<close>

theorem detailed_statistics_rounds_counterexample:
  "detailed_statistics example_store =
     (JsonResponse True [] 200,
      Some \<lparr>completionRate = 3333 / 100, avgVotesPerPoll = 33 / 100, engagementRate = 3333 / 100\<rparr>) \<and>
   length (filter (\<lambda>p. \<exists>v\<in>set (votes example_store). v_poll v = poll_id p) (polls example_store)) = 1 \<and>
   length (polls example_store) = 3 \<and>
   (3333 / 100 :: rat) \<noteq> of_nat 1 / of_nat 3 * 100"
  by (simp add: detailed_statistics_def detailed_statistics_body_eq polls_with_votes_def
        users_who_voted_def total_votes_def example_defs py_round_def round_half_even_def Let_def
        floor_numeral_div)

theorem completion_rate_witness:
  "polls empty_store = [] \<and> polls example_store \<noteq> [] \<and>
   (\<exists>st. detailed_statistics empty_store = (JsonResponse True [] 200, Some st) \<and> completionRate st = 0) \<and>
   (\<exists>st. detailed_statistics example_store = (JsonResponse True [] 200, Some st) \<and>
         completionRate st = 3333 / 100 \<and>
         \<bar>completionRate st - of_nat 1 / of_nat 3 * 100\<bar> \<le> 1 / 200)"
proof -
  have e: "polls empty_store = []" by (simp add: empty_store_def)
  have n: "polls example_store \<noteq> []" by (simp add: example_defs)
  from completion_rate [of empty_store] e
  obtain st0 where a: "detailed_statistics empty_store = (JsonResponse True [] 200, Some st0)"
      "completionRate st0 = 0"
    by auto
  have cnt: "length (filter (\<lambda>p. \<exists>v\<in>set (votes example_store). v_poll v = poll_id p) (polls example_store)) = 1"
    "length (polls example_store) = 3"
    by (simp_all add: example_defs)
  from completion_rate [of example_store] n
  obtain st1 where b: "detailed_statistics example_store = (JsonResponse True [] 200, Some st1)"
      "\<bar>completionRate st1
            - of_nat (length (filter (\<lambda>p. \<exists>v\<in>set (votes example_store). v_poll v = poll_id p) (polls example_store)))
              / of_nat (length (polls example_store)) * 100\<bar> \<le> 1 / 200"
    by auto
  from b(1) have v: "completionRate st1 = 3333 / 100"
    by (auto simp add: detailed_statistics_def detailed_statistics_body_eq polls_with_votes_def
        users_who_voted_def total_votes_def example_defs py_round_def round_half_even_def Let_def
        floor_numeral_div)
  from b(2) have bd: "\<bar>completionRate st1 - of_nat 1 / of_nat 3 * 100\<bar> \<le> 1 / 200"
    unfolding cnt by simp
  from e n a b(1) v bd show ?thesis by blast
qed

text \<open>
  \<open>analytics_detailed\<close> of \<open>polls/views.py\<close> returns no completion rate: in every store
  the category query raises \<open>FieldError\<close> and the answer is 500.
\<close>

lemma analytics_detailed_answers_500:
  "analytics_detailed_body s = Inl FieldError \<and> analytics_detailed s = (JsonResponse False [] 500, None)"
  by (simp add: analytics_detailed_def analytics_detailed_body_def and_then_def truediv_def
        polls_Poll_fields_def Let_def)

section \<open>Division by zero\<close>











section \<open>Reachable stores satisfy the constraints\<close>

text \<open>
  Every handler that writes keeps the constraints of the tables and keeps every vote
  with an option of its poll, so both hold in each store the handlers can produce.
\<close>

lemma store_invariant_PollOption_objects_create:
  assumes "store_invariant s"
  shows "store_invariant (PollOption_objects_create s pid txt)"
proof -
  from assms have lt: "\<forall>opt\<in>set (options s). option_id opt < next_option_id s"
    by (simp add: store_invariant_def store_constraints_def list_all_iff)
  then have "next_option_id s \<notin> option_id ` set (options s)" by auto
  moreover have "\<forall>opt\<in>set (options s). option_id opt < Suc (next_option_id s)"
    using lt by auto
  ultimately show ?thesis
    using assms
    by (auto simp add: store_invariant_def store_constraints_def one_vote_per_poll_user_def votes_in_poll_def
          PollOption_objects_create_def list_all_iff list_ex_iff)
qed

lemma store_invariant_create_options: "store_invariant s \<Longrightarrow> store_invariant (create_options pid opts s)"
proof (induction opts arbitrary: s)
  case Nil
  then show ?case by (simp add: create_options_def)
next
  case (Cons t ts)
  have "create_options pid (t # ts) s
        = create_options pid ts (if strip t \<noteq> [] then PollOption_objects_create s pid (strip t) else s)"
    by (simp add: create_options_def)
  with Cons store_invariant_PollOption_objects_create show ?case by simp
qed

lemma store_invariant_Poll_objects_create:
  assumes "store_invariant s"
  shows "store_invariant (snd (Poll_objects_create now s t d c u e))"
proof -
  from assms have lt: "\<forall>p\<in>set (polls s). poll_id p < next_poll_id s"
    by (simp add: store_invariant_def store_constraints_def list_all_iff)
  then have "next_poll_id s \<notin> poll_id ` set (polls s)" by auto
  moreover have "\<forall>p\<in>set (polls s). poll_id p < Suc (next_poll_id s)"
    using lt by auto
  ultimately show ?thesis
    using assms
    by (auto simp add: store_invariant_def store_constraints_def one_vote_per_poll_user_def votes_in_poll_def
          Poll_objects_create_def Let_def list_all_iff)
qed

lemma Poll_save_ids:
  "map (poll_id \<circ> (\<lambda>q. if poll_id q = poll_id p then p else q)) ps = map poll_id ps"
  by (induction ps) auto

lemma store_invariant_Poll_save:
  assumes "store_invariant s"
  shows "store_invariant (Poll_save s p)"
proof -
  have "list_all (\<lambda>q. poll_id q < next_poll_id s) (map (\<lambda>q. if poll_id q = poll_id p then p else q) (polls s))"
    using assms by (auto simp add: store_invariant_def store_constraints_def list_all_iff)
  then show ?thesis
    using assms
    by (simp add: store_invariant_def store_constraints_def one_vote_per_poll_user_def votes_in_poll_def
          Poll_save_def Poll_save_ids)
qed

lemma votes_in_poll_after_delete:
  assumes "votes_in_poll s"
    and "v \<in> set (votes s)"
    and "v_option v \<notin> set (map option_id (filter (\<lambda>opt. option_poll opt = pid) (options s)))"
  shows "list_ex (\<lambda>opt. option_id opt = v_option v \<and> option_poll opt = v_poll v)
           (filter (\<lambda>opt. option_poll opt \<noteq> pid) (options s))"
proof -
  from assms(1,2) obtain opt where o: "opt \<in> set (options s)" "option_id opt = v_option v"
    "option_poll opt = v_poll v"
    by (auto simp add: votes_in_poll_def list_all_iff list_ex_iff)
  have "option_poll opt \<noteq> pid"
  proof
    assume "option_poll opt = pid"
    with o(1) have "option_id opt \<in> set (map option_id (filter (\<lambda>opt. option_poll opt = pid) (options s)))"
      by force
    with assms(3) o(2) show False by simp
  qed
  with o show ?thesis by (auto simp add: list_ex_iff)
qed

lemma store_invariant_delete_options_of:
  assumes "store_invariant s"
  shows "store_invariant (delete_options_of s pid)"
proof -
  from assms have c: "store_constraints s" and w: "votes_in_poll s" by (simp_all add: store_invariant_def)
  have "store_constraints (delete_options_of s pid)"
    using c
    by (auto simp add: store_constraints_def one_vote_per_poll_user_def delete_options_of_def Let_def
          distinct_map_filter list_all_iff)
  moreover have "votes_in_poll (delete_options_of s pid)"
    using votes_in_poll_after_delete [OF w]
    by (simp add: votes_in_poll_def delete_options_of_def Let_def list_all_iff)
  ultimately show ?thesis by (simp add: store_invariant_def)
qed

lemma store_invariant_Poll_delete:
  assumes "store_invariant s"
  shows "store_invariant (Poll_delete s pid)"
proof -
  from assms have c: "store_constraints s" and w: "votes_in_poll s" by (simp_all add: store_invariant_def)
  have "store_constraints (Poll_delete s pid)"
    using c
    by (auto simp add: store_constraints_def one_vote_per_poll_user_def Poll_delete_def Let_def
          distinct_map_filter list_all_iff)
  moreover have "votes_in_poll (Poll_delete s pid)"
    using votes_in_poll_after_delete [OF w]
    by (simp add: votes_in_poll_def Poll_delete_def Let_def list_all_iff)
  ultimately show ?thesis by (simp add: store_invariant_def)
qed

lemma votes_in_poll_vote_poll_body:
  assumes "votes_in_poll s" and "vote_poll_body s u pid oid = Inr (msg, s')"
  shows "votes_in_poll s'"
proof -
  from assms(2) obtain poll opt where
    gp: "get_object_or_404 Poll_fields [''id''] (\<lambda>p. poll_id p = pid) (polls s) = Inr poll"
    and go: "get_object_or_404 PollOption_fields [''id'', ''poll'']
               (\<lambda>x. option_id x = oid \<and> option_poll x = poll_id poll) (options s) = Inr opt"
    by (auto simp add: vote_poll_body_def and_then_def split: sum.splits)
  from get_object_or_404_Inr [OF go]
  have o: "opt \<in> set (options s)" "option_id opt = oid" "option_poll opt = poll_id poll" by simp_all
  then have ex: "list_ex (\<lambda>x. option_id x = option_id opt \<and> option_poll x = poll_id poll) (options s)"
    by (auto simp add: list_ex_iff)
  show ?thesis
  proof (cases "Vote_first (filter (\<lambda>v. v_poll v = poll_id poll \<and> v_user v = u) (votes s))")
    case None
    with assms(2) gp go have "Vote_objects_create s (poll_id poll) (option_id opt) u = Inr s'"
      by (auto simp add: vote_poll_body_def and_then_def split: sum.splits)
    then have "s' = s\<lparr>votes := votes s @ [\<lparr>v_id = next_vote_id s, v_poll = poll_id poll,
                                             v_option = option_id opt, v_user = u\<rparr>],
                     next_vote_id := Suc (next_vote_id s)\<rparr>"
      by (auto simp add: Vote_objects_create_def split: if_splits)
    with assms(1) ex show ?thesis by (simp add: votes_in_poll_def)
  next
    case (Some e)
    from Vote_first_mem [OF Some] have e: "e \<in> set (votes s)" "v_poll e = poll_id poll" by simp_all
    from assms(2) gp go Some have "Vote_save s (e\<lparr>v_option := option_id opt\<rparr>) = Inr s'"
      by (auto simp add: vote_poll_body_def and_then_def split: sum.splits)
    then have s': "s' = s\<lparr>votes := map (\<lambda>w. if v_id w = v_id e then e\<lparr>v_option := option_id opt\<rparr> else w) (votes s)\<rparr>"
      by (auto simp add: Vote_save_def split: if_splits)
    show ?thesis
      using assms(1) ex e(2) unfolding s'
      by (auto simp add: votes_in_poll_def list_all_iff)
  qed
qed

lemma store_invariant_vote_poll: "store_invariant s \<Longrightarrow> store_invariant (snd (vote_poll s user pid body))"
  by (auto simp add: store_invariant_def vote_poll_def split: option.splits sum.splits
        intro: vote_poll_body_constraints votes_in_poll_vote_poll_body)

lemma store_invariant_create_poll: "store_invariant s \<Longrightarrow> store_invariant (snd (create_poll fromisoformat now s user data))"
proof -
  assume a: "store_invariant s"
  have h: "store_invariant (create_options k opts s1)"
    if "Poll_objects_create now s t d c u e = (p, s1)" for t d c u e p s1 k opts
  proof -
    from that have "s1 = snd (Poll_objects_create now s t d c u e)" by simp
    with store_invariant_Poll_objects_create [OF a] have "store_invariant s1" by simp
    then show ?thesis by (rule store_invariant_create_options)
  qed
  show ?thesis
    using a by (auto simp add: create_poll_def Let_def split: option.splits prod.splits intro: h)
qed

lemma store_invariant_poll_detail: "store_invariant s \<Longrightarrow> store_invariant (snd (poll_detail method s user pid body))"
  by (auto simp add: poll_detail_def Let_def
        split: sum.splits exn.splits http_method.splits option.splits
        intro!: store_invariant_create_options store_invariant_delete_options_of store_invariant_Poll_save store_invariant_Poll_delete)

lemma store_invariant_edit_poll: "store_invariant s \<Longrightarrow> store_invariant (snd (edit_poll s user pid body))"
  by (auto simp add: edit_poll_def Let_def split: sum.splits exn.splits option.splits
        intro!: store_invariant_Poll_save)

lemma store_invariant_delete_poll: "store_invariant s \<Longrightarrow> store_invariant (snd (delete_poll method s user pid))"
  by (auto simp add: delete_poll_def split: sum.splits exn.splits option.splits
        intro!: store_invariant_Poll_delete)

lemma reachable_constraints: "reachable s \<Longrightarrow> store_constraints s \<and> votes_in_poll s"
proof -
  assume "reachable s"
  then have "store_invariant s"
  proof (induction rule: reachable.induct)
    case (initial us)
    show ?case
      by (simp add: store_invariant_def store_constraints_def one_vote_per_poll_user_def votes_in_poll_def
            empty_store_def)
  qed (simp_all add: store_invariant_create_poll store_invariant_vote_poll store_invariant_poll_detail store_invariant_edit_poll store_invariant_delete_poll)
  then show ?thesis by (simp add: store_invariant_def)
qed


end
